theory Spec2Isabelle
  imports Complex_Main
begin

section \<open>Numbers\<close>

text \<open>
  The TypeScript sources compute with \<open>number\<close>. The item-response functions of
  \<open>irt.ts\<close> are embedded over \<^typ>\<open>real\<close>: exact arithmetic, no rounding. The
  knowledge-tracing functions of \<open>bkt.ts\<close> divide by quantities that can be zero, so
  their numbers carry the special values of the source language as well: a finite value
  (exact, a real), the two infinities, and NaN. The sign of a zero is not tracked; a
  zero divisor is taken as \<open>+0\<close>.
\<close>

datatype jsnum = Fin real | PInf | NInf | NaN

fun js_neg :: "jsnum \<Rightarrow> jsnum" where
  "js_neg (Fin x) = Fin (- x)"
| "js_neg PInf = NInf"
| "js_neg NInf = PInf"
| "js_neg NaN = NaN"

fun js_add :: "jsnum \<Rightarrow> jsnum \<Rightarrow> jsnum" where
  "js_add NaN _ = NaN"
| "js_add _ NaN = NaN"
| "js_add (Fin x) (Fin y) = Fin (x + y)"
| "js_add PInf NInf = NaN"
| "js_add NInf PInf = NaN"
| "js_add PInf _ = PInf"
| "js_add _ PInf = PInf"
| "js_add NInf _ = NInf"
| "js_add _ NInf = NInf"

definition js_sub :: "jsnum \<Rightarrow> jsnum \<Rightarrow> jsnum" where
  "js_sub x y = js_add x (js_neg y)"

text \<open>The infinity of the given sign.\<close>

definition js_inf :: "bool \<Rightarrow> jsnum" where
  "js_inf negative = (if negative then NInf else PInf)"

fun js_mul :: "jsnum \<Rightarrow> jsnum \<Rightarrow> jsnum" where
  "js_mul NaN _ = NaN"
| "js_mul _ NaN = NaN"
| "js_mul (Fin x) (Fin y) = Fin (x * y)"
| "js_mul (Fin x) PInf = (if x = 0 then NaN else js_inf (x < 0))"
| "js_mul (Fin x) NInf = (if x = 0 then NaN else js_inf (0 < x))"
| "js_mul PInf (Fin y) = (if y = 0 then NaN else js_inf (y < 0))"
| "js_mul NInf (Fin y) = (if y = 0 then NaN else js_inf (0 < y))"
| "js_mul PInf PInf = PInf"
| "js_mul NInf NInf = PInf"
| "js_mul PInf NInf = NInf"
| "js_mul NInf PInf = NInf"

fun js_div :: "jsnum \<Rightarrow> jsnum \<Rightarrow> jsnum" where
  "js_div NaN _ = NaN"
| "js_div _ NaN = NaN"
| "js_div (Fin x) (Fin y) =
     (if y \<noteq> 0 then Fin (x / y) else if x = 0 then NaN else js_inf (x < 0))"
| "js_div (Fin x) PInf = Fin 0"
| "js_div (Fin x) NInf = Fin 0"
| "js_div PInf (Fin y) = js_inf (y < 0)"
| "js_div NInf (Fin y) = js_inf (0 \<le> y)"
| "js_div PInf PInf = NaN"
| "js_div PInf NInf = NaN"
| "js_div NInf PInf = NaN"
| "js_div NInf NInf = NaN"

text \<open>The comparison \<open>x >= y\<close>: false as soon as one side is NaN.\<close>

fun js_ge :: "jsnum \<Rightarrow> jsnum \<Rightarrow> bool" where
  "js_ge NaN _ = False"
| "js_ge _ NaN = False"
| "js_ge (Fin x) (Fin y) = (y \<le> x)"
| "js_ge PInf _ = True"
| "js_ge _ NInf = True"
| "js_ge NInf _ = False"
| "js_ge _ PInf = False"

text \<open>\<open>Math.min\<close> and \<open>Math.max\<close>: NaN as soon as one argument is NaN.\<close>

fun Math_min :: "jsnum \<Rightarrow> jsnum \<Rightarrow> jsnum" where
  "Math_min NaN _ = NaN"
| "Math_min _ NaN = NaN"
| "Math_min x y = (if js_ge y x then x else y)"

fun Math_max :: "jsnum \<Rightarrow> jsnum \<Rightarrow> jsnum" where
  "Math_max NaN _ = NaN"
| "Math_max _ NaN = NaN"
| "Math_max x y = (if js_ge x y then x else y)"

section \<open>Errors\<close>

text \<open>
  The only error kind the specification names for the numerical core is \<open>NumericError\<close>.
  The two routes report a failure as an HTTP status with a message: 400 for a request
  that is refused (validation, wrong quiz, completed session, duplicate answer), 404
  for a missing entity, 500 for anything caught by the handler.
\<close>

datatype numeric_error = NumericError

datatype api_error = ApiError nat string

section \<open>Bayesian knowledge tracing (bkt.ts)\<close>

record BKTParams =
  pL0 :: jsnum
  pT :: jsnum
  pS :: jsnum
  pG :: jsnum

record BKTUpdateResult =
  pLearned_before :: jsnum
  pLearned_after :: jsnum
  isMastered :: bool

record KCState =
  kcId :: string
  pLearned :: jsnum
  attempts :: nat
  correct :: nat
  isMastered :: bool

definition MASTERY_THRESHOLD :: jsnum where
  "MASTERY_THRESHOLD = Fin 0.95"

definition bkt_params :: "real \<Rightarrow> real \<Rightarrow> real \<Rightarrow> real \<Rightarrow> BKTParams" where
  "bkt_params l t s g = \<lparr>pL0 = Fin l, pT = Fin t, pS = Fin s, pG = Fin g\<rparr>"

definition DEFAULT_BKT_PARAMS_list :: "(string \<times> BKTParams) list" where
  "DEFAULT_BKT_PARAMS_list =
    [(''UK_national_parks'', bkt_params 0.40 0.20 0.10 0.25),
     (''UK_capitals'', bkt_params 0.60 0.25 0.08 0.25),
     (''UK_county_locations'', bkt_params 0.30 0.20 0.12 0.25),
     (''UK_rivers'', bkt_params 0.50 0.22 0.10 0.25),
     (''UK_mountains'', bkt_params 0.45 0.20 0.10 0.25),
     (''westerly_winds_rainfall'', bkt_params 0.25 0.18 0.12 0.25),
     (''maritime_continental'', bkt_params 0.20 0.18 0.12 0.25),
     (''pennines_rain_shadow'', bkt_params 0.20 0.15 0.15 0.25),
     (''north_atlantic_drift'', bkt_params 0.22 0.18 0.12 0.25),
     (''continental_effect'', bkt_params 0.18 0.15 0.15 0.25),
     (''climate_classification'', bkt_params 0.15 0.15 0.18 0.25),
     (''climate_change_application'', bkt_params 0.12 0.15 0.18 0.25),
     (''flood_risk_integration'', bkt_params 0.10 0.12 0.20 0.25)]"

definition DEFAULT_BKT_PARAMS :: "string \<rightharpoonup> BKTParams" where
  "DEFAULT_BKT_PARAMS = map_of DEFAULT_BKT_PARAMS_list"

definition initialiseKC :: "string \<Rightarrow> BKTParams \<Rightarrow> KCState" where
  "initialiseKC k params =
     \<lparr>kcId = k, pLearned = pL0 params, attempts = 0, correct = 0,
      isMastered = js_ge (pL0 params) MASTERY_THRESHOLD\<rparr>"

text \<open>
  \<open>updateBKT\<close>: the Bayesian update on the observed response, the learning transition,
  the clamp. The source has no \<open>throw\<close> and no test of a denominator: every call
  returns, which the model writes as \<open>Inr\<close>.
\<close>

definition updateBKT :: "jsnum \<Rightarrow> bool \<Rightarrow> BKTParams \<Rightarrow> numeric_error + BKTUpdateResult" where
  "updateBKT pLearned0 isCorrect params =
     (let pLearnedGivenResponse =
            (if isCorrect then
               (let pCorrect = js_add (js_mul pLearned0 (js_sub (Fin 1) (pS params)))
                                      (js_mul (js_sub (Fin 1) pLearned0) (pG params))
                in js_div (js_mul pLearned0 (js_sub (Fin 1) (pS params))) pCorrect)
             else
               (let pIncorrect = js_add (js_mul pLearned0 (pS params))
                                        (js_mul (js_sub (Fin 1) pLearned0)
                                                (js_sub (Fin 1) (pG params)))
                in js_div (js_mul pLearned0 (pS params)) pIncorrect));
          pLearned_after0 =
            js_add pLearnedGivenResponse
                   (js_mul (js_sub (Fin 1) pLearnedGivenResponse) (pT params));
          pLearned_clamped = Math_max (Fin 0) (Math_min (Fin 1) pLearned_after0)
      in Inr \<lparr>pLearned_before = pLearned0,
              pLearned_after = pLearned_clamped,
              BKTUpdateResult.isMastered = js_ge pLearned_clamped MASTERY_THRESHOLD\<rparr>)"


text \<open>The two denominators of the Bayesian update, over finite values.\<close>

definition pCorrect_of :: "real \<Rightarrow> real \<Rightarrow> real \<Rightarrow> real" where
  "pCorrect_of p s g = p * (1 - s) + (1 - p) * g"

definition pIncorrect_of :: "real \<Rightarrow> real \<Rightarrow> real \<Rightarrow> real" where
  "pIncorrect_of p s g = p * s + (1 - p) * (1 - g)"

definition bkt_denominator :: "bool \<Rightarrow> real \<Rightarrow> real \<Rightarrow> real \<Rightarrow> real" where
  "bkt_denominator isCorrect p s g =
     (if isCorrect then pCorrect_of p s g else pIncorrect_of p s g)"

definition UK_capitals :: BKTParams where
  "UK_capitals = bkt_params 0.60 0.25 0.08 0.25"

section \<open>Item response theory (irt.ts)\<close>

text \<open>
  A field whose source name is a keyword or a constant of the logic carries a short
  prefix here: \<open>qid\<close> and \<open>qtext\<close> for the \<open>id\<close> and \<open>text\<close> of an item, \<open>correct_label\<close> for
  its \<open>correct\<close>; likewise \<open>question_id\<close>, \<open>question_text\<close>, \<open>option_text\<close>, \<open>session_id\<close> and
  \<open>interaction_id\<close> for the rows of the store. Where two interfaces share a field name,
  the name is written with its record, as in \<open>Question.options\<close>.
\<close>

definition THETA_INITIAL :: real where
  "THETA_INITIAL = - 0.780"

definition THETA_INITIAL_SD :: real where
  "THETA_INITIAL_SD = 0.543"

definition D :: real where
  "D = 1.7"

definition C_DEFAULT :: real where
  "C_DEFAULT = 0.25"

definition THETA_MIN :: real where
  "THETA_MIN = - 4"

definition THETA_MAX :: real where
  "THETA_MAX = 4"

definition THETA_STEPS :: nat where
  "THETA_STEPS = 161"

record IRTParams =
  a :: real
  b :: real
  c :: real

record IRTQuestion = IRTParams +
  qid :: string
  qtext :: string
  options :: "(string \<times> string) list"
  correct_label :: "string option"
  bloom :: nat
  kc :: string

record EAPResult =
  theta :: real
  sd :: real
  ci95Low :: real
  ci95High :: real

record NextQuestionCriteria =
  targetTheta :: real
  excludeIds :: "string list"
  bloomLevel :: "nat option"

text \<open>The domain of the item parameters: \<open>a > 0\<close> and \<open>0 \<le> c < 1\<close>.\<close>

definition valid_params :: "'x IRTParams_scheme \<Rightarrow> bool" where
  "valid_params params \<longleftrightarrow> 0 < a params \<and> 0 \<le> c params \<and> c params < 1"

definition p3PL :: "real \<Rightarrow> 'x IRTParams_scheme \<Rightarrow> real" where
  "p3PL th params =
     c params + (1 - c params) / (1 + exp (- D * a params * (th - b params)))"

definition itemInformation :: "real \<Rightarrow> 'x IRTParams_scheme \<Rightarrow> real" where
  "itemInformation th params =
     (let p = p3PL th params
      in (D ^ 2 * (a params) ^ 2 * ((p - c params) ^ 2))
         / ((1 - c params) ^ 2 * p * (1 - p)))"

subsection \<open>Adaptive question selection\<close>

record scored_item =
  question :: IRTQuestion
  info :: real

definition eligible_items :: "IRTQuestion list \<Rightarrow> NextQuestionCriteria \<Rightarrow> IRTQuestion list" where
  "eligible_items questions criteria =
     filter (\<lambda>q. \<not> List.member (excludeIds criteria) (qid q) \<and>
                 (bloomLevel criteria = None \<or> Some (bloom q) = bloomLevel criteria))
            questions"

text \<open>
  \<open>scored.sort((a, b) => b.info - a.info)\<close> sorts by decreasing \<open>info\<close> and is stable:
  items of equal \<open>info\<close> keep the order of the bank. \<^const>\<open>sort_key\<close> is the stable
  insertion sort by increasing key, here the negated \<open>info\<close>.
\<close>

definition selectNextQuestion ::
  "IRTQuestion list \<Rightarrow> NextQuestionCriteria \<Rightarrow> IRTQuestion option" where
  "selectNextQuestion questions criteria =
     (let eligible = eligible_items questions criteria
      in if length eligible = 0 then None
         else (let scored = map (\<lambda>q. \<lparr>question = q,
                                         info = itemInformation (targetTheta criteria) q\<rparr>)
                                eligible;
                   sorted = sort_key (\<lambda>s. - info s) scored
               in Some (question (hd sorted))))"

subsection \<open>Expected a posteriori estimation\<close>

record Response =
  params :: IRTParams
  isCorrect :: bool

definition step :: real where
  "step = (THETA_MAX - THETA_MIN) / real (THETA_STEPS - 1)"

definition grid :: "real list" where
  "grid = map (\<lambda>i. THETA_MIN + real i * step) [0..<THETA_STEPS]"

definition prior_weights :: "real \<Rightarrow> real \<Rightarrow> real list" where
  "prior_weights priorMean priorSd =
     map (\<lambda>t. exp (- 0.5 * ((t - priorMean) / priorSd) ^ 2)) grid"

definition likelihood_at :: "Response list \<Rightarrow> real \<Rightarrow> real \<Rightarrow> real" where
  "likelihood_at responses th prior_i =
     foldl (\<lambda>acc r. let p = p3PL th (params r)
                      in acc * (if Response.isCorrect r then p else 1 - p))
           prior_i responses"

text \<open>
  The loop of the credible interval, from index \<open>i\<close> on. \<open>ci95Low\<close> is assigned while it
  still holds its initial value \<open>THETA_MIN\<close>; the assignment of \<open>ci95High\<close> leaves the loop.
\<close>

function ci_loop ::
  "real list \<Rightarrow> real list \<Rightarrow> nat \<Rightarrow> real \<Rightarrow> real \<Rightarrow> real \<Rightarrow> real \<times> real" where
  "ci_loop g posterior i cumulative lo hi =
     (if i < length g then
        (let cumulative' = cumulative + posterior ! i;
             lo' = (if cumulative' \<ge> 0.025 \<and> lo = THETA_MIN then g ! i else lo)
         in if cumulative' \<ge> 0.975 \<and> hi = THETA_MAX then (lo', g ! i)
            else ci_loop g posterior (i + 1) cumulative' lo' hi)
      else (lo, hi))"
  by pat_completeness auto
termination
  by (relation "measure (\<lambda>(g, posterior, i, cumulative, lo, hi). length g - i)") auto

declare ci_loop.simps [simp del]

text \<open>
  \<open>Math.sqrt\<close> of a negative number is NaN, where \<^const>\<open>sqrt\<close> is negative; the sum under
  the root is non-negative as soon as the posterior is. The divisions by \<open>priorSd\<close> and by
  the sum of the likelihoods are exact where the divisor is not zero.
\<close>

definition eapEstimate :: "Response list \<Rightarrow> real \<Rightarrow> real \<Rightarrow> EAPResult" where
  "eapEstimate responses priorMean priorSd =
     (let prior = prior_weights priorMean priorSd;
          likelihood = map (\<lambda>i. likelihood_at responses (grid ! i) (prior ! i))
                           [0..<length grid];
          total = foldl (\<lambda>x y. x + y) 0 likelihood;
          posterior = map (\<lambda>l. l / total) likelihood;
          th = foldl (\<lambda>acc i. acc + grid ! i * posterior ! i) 0 [0..<length grid];
          s = sqrt (foldl (\<lambda>acc i. acc + (grid ! i - th) ^ 2 * posterior ! i) 0
                          [0..<length grid]);
          ci = ci_loop grid posterior 0 0 THETA_MIN THETA_MAX
      in \<lparr>theta = th, sd = s, ci95Low = fst ci, ci95High = snd ci\<rparr>)"

section \<open>The store\<close>

text \<open>
  The rows the two routes read and write. Rows are kept in lists in insertion order,
  which is the order of \<open>createdAt\<close>; sessions are found by their key. The \<open>kcStates\<close> of
  a session is a serialised map in the source; the model holds the map it parses to
  (a string that does not parse reads as the empty map). The id of a new interaction is
  assigned by the store: its serial number.
\<close>

record QuestionOption =
  option_text :: string
  isCorrect :: bool
  order :: nat

record Question =
  question_id :: string
  question_text :: string
  order :: nat
  irt_a :: real
  irt_b :: real
  irt_c :: real
  bloom :: nat
  kc :: string
  quizId :: string
  options :: "QuestionOption list"

record Interaction =
  interaction_id :: nat
  sessionId :: string
  questionId :: string
  selectedAnswer :: string
  isCorrect :: bool
  responseTimeMs :: real
  theta_before :: real
  theta_after :: real
  pLearned_before :: jsnum
  pLearned_after :: jsnum

record Session =
  session_id :: string
  userId :: string
  quizId :: string
  condition :: string
  completedAt :: "nat option"
  theta :: real
  thetaSd :: real
  kcStates :: "string \<rightharpoonup> KCState"

record Db =
  sessions :: "string \<rightharpoonup> Session"
  questions :: "Question list"
  interactions :: "Interaction list"

definition session_interactions :: "Db \<Rightarrow> string \<Rightarrow> Interaction list" where
  "session_interactions db sid = filter (\<lambda>i. sessionId i = sid) (interactions db)"


definition quiz_questions :: "Db \<Rightarrow> string \<Rightarrow> Question list" where
  "quiz_questions db quiz =
     map (\<lambda>q. q\<lparr>options := sort_key QuestionOption.order (Question.options q)\<rparr>)
         (sort_key Question.order (filter (\<lambda>q. Question.quizId q = quiz) (questions db)))"

subsection \<open>Shared helpers of the routes\<close>

definition labels :: "string list" where
  "labels = [''A'', ''B'', ''C'', ''D'']"

fun findIndex :: "('x \<Rightarrow> bool) \<Rightarrow> 'x list \<Rightarrow> nat option" where
  "findIndex P [] = None"
| "findIndex P (x # xs) = (if P x then Some 0 else map_option Suc (findIndex P xs))"

text \<open>
  \<open>correctIdx >= 0 ? labels[correctIdx] : 'A'\<close>; an index past the four labels reads
  \<open>undefined\<close>, here \<open>None\<close>.
\<close>

definition correctLabel_of :: "QuestionOption list \<Rightarrow> string option" where
  "correctLabel_of opts =
     (case findIndex QuestionOption.isCorrect opts of
        None \<Rightarrow> Some ''A''
      | Some i \<Rightarrow> (if i < length labels then Some (labels ! i) else None))"



text \<open>\<open>Math.round(x * 1000) / 1000\<close>; \<open>Math.round\<close> rounds a half upwards.\<close>

definition round3 :: "real \<Rightarrow> real" where
  "round3 x = of_int \<lfloor>x * 1000 + 1 / 2\<rfloor> / 1000"


definition toIRTQuestion :: "Question \<Rightarrow> IRTQuestion" where
  "toIRTQuestion q =
     \<lparr>a = irt_a q, b = irt_b q, c = irt_c q,
      qid = question_id q,
      qtext = question_text q,
      IRTQuestion.options = zip labels (map option_text (Question.options q)),
      correct_label = correctLabel_of (Question.options q),
      IRTQuestion.bloom = (if Question.bloom q = 0 then 1 else Question.bloom q),
      IRTQuestion.kc = Question.kc q\<rparr>"

section \<open>GET /api/sessions/[id]/next-question\<close>

record QuestionPayload =
  out_questionId :: string
  out_text :: string
  out_options :: "(string \<times> string) list"
  out_bloom :: nat
  out_kc :: string
  meta_currentTheta :: real
  meta_itemDifficulty :: real
  meta_itemInformation :: real
  meta_questionsAnswered :: nat
  meta_questionsRemaining :: nat
  meta_condition :: string

datatype next_response =
    SessionComplete real nat
  | NextQuestion QuestionPayload

text \<open>
  The handler, as a step on the store: the response and the store after the call.
  \<open>now\<close> is the clock read by \<open>new Date()\<close>.
\<close>

definition nextQuestion :: "Db \<Rightarrow> nat \<Rightarrow> string \<Rightarrow> (api_error + next_response) \<times> Db" where
  "nextQuestion db now sid =
     (case sessions db sid of
        None \<Rightarrow> (Inl (ApiError 404 ''Session not found''), db)
      | Some session \<Rightarrow>
          if completedAt session \<noteq> None
          then (Inl (ApiError 400 ''Session already completed''), db)
          else
            (let qs = quiz_questions db (Session.quizId session)
             in if length qs = 0
                then (Inl (ApiError 404 ''No questions found for this quiz''), db)
                else
                  (let answeredIds = map questionId (session_interactions db sid)
                   in if length answeredIds \<ge> length qs
                      then (Inr (SessionComplete (Session.theta session) (length answeredIds)),
                            db\<lparr>sessions := (sessions db)
                                 (sid \<mapsto> session\<lparr>completedAt := Some now\<rparr>)\<rparr>)
                      else
                        (let irtQuestions = map toIRTQuestion qs;
                             selectedQuestion =
                               (if condition session = ''adaptive''
                                then selectNextQuestion irtQuestions
                                       \<lparr>targetTheta = Session.theta session,
                                        excludeIds = answeredIds,
                                        bloomLevel = None\<rparr>
                                else (case filter (\<lambda>q. \<not> List.member answeredIds (qid q))
                                                  irtQuestions of
                                        [] \<Rightarrow> None
                                      | q # _ \<Rightarrow> Some q))
                         in case selectedQuestion of
                              None \<Rightarrow>
                                (Inl (ApiError 404 ''No eligible questions remaining''), db)
                            | Some q \<Rightarrow>
                                (Inr (NextQuestion
                                   \<lparr>out_questionId = qid q,
                                    out_text = qtext q,
                                    out_options = IRTQuestion.options q,
                                    out_bloom = IRTQuestion.bloom q,
                                    out_kc = IRTQuestion.kc q,
                                    meta_currentTheta = Session.theta session,
                                    meta_itemDifficulty = b q,
                                    meta_itemInformation =
                                      round3 (itemInformation (Session.theta session) q),
                                    meta_questionsAnswered = length answeredIds,
                                    meta_questionsRemaining = length qs - length answeredIds,
                                    meta_condition = condition session\<rparr>),
                                 db)))))"

section \<open>POST /api/sessions/[id]/answer\<close>







section \<open>The seeded question bank (seed.ts)\<close>

definition q_001 :: Question where
  "q_001 =
     \<lparr>question_id = ''q-001'',
      question_text = ''Which county is home to the Peak District National Park?'',
      Question.order = 1,
      irt_a = 0.85, irt_b = - 0.80, irt_c = 0.25,
      Question.bloom = 1, Question.kc = ''UK_national_parks'',
      Question.quizId = ''quiz-uk-geo-adaptive'',
      Question.options =
       [\<lparr>option_text = ''Derbyshire'', QuestionOption.isCorrect = True, QuestionOption.order = 1\<rparr>,
        \<lparr>option_text = ''Yorkshire'', QuestionOption.isCorrect = False, QuestionOption.order = 2\<rparr>,
        \<lparr>option_text = ''Lancashire'', QuestionOption.isCorrect = False, QuestionOption.order = 3\<rparr>,
        \<lparr>option_text = ''Staffordshire'', QuestionOption.isCorrect = False, QuestionOption.order = 4\<rparr>]\<rparr>"

definition q_002 :: Question where
  "q_002 =
     \<lparr>question_id = ''q-002'',
      question_text = ''What is the capital city of Wales?'',
      Question.order = 2,
      irt_a = 1.20, irt_b = - 1.50, irt_c = 0.25,
      Question.bloom = 1, Question.kc = ''UK_capitals'',
      Question.quizId = ''quiz-uk-geo-adaptive'',
      Question.options =
       [\<lparr>option_text = ''Swansea'', QuestionOption.isCorrect = False, QuestionOption.order = 1\<rparr>,
        \<lparr>option_text = ''Newport'', QuestionOption.isCorrect = False, QuestionOption.order = 2\<rparr>,
        \<lparr>option_text = ''Cardiff'', QuestionOption.isCorrect = True, QuestionOption.order = 3\<rparr>,
        \<lparr>option_text = ''Wrexham'', QuestionOption.isCorrect = False, QuestionOption.order = 4\<rparr>]\<rparr>"

definition q_003 :: Question where
  "q_003 =
     \<lparr>question_id = ''q-003'',
      question_text = ''Which county is located in the far south-west tip of England?'',
      Question.order = 3,
      irt_a = 0.90, irt_b = - 0.60, irt_c = 0.25,
      Question.bloom = 1, Question.kc = ''UK_county_locations'',
      Question.quizId = ''quiz-uk-geo-adaptive'',
      Question.options =
       [\<lparr>option_text = ''Devon'', QuestionOption.isCorrect = False, QuestionOption.order = 1\<rparr>,
        \<lparr>option_text = ''Dorset'', QuestionOption.isCorrect = False, QuestionOption.order = 2\<rparr>,
        \<lparr>option_text = ''Somerset'', QuestionOption.isCorrect = False, QuestionOption.order = 3\<rparr>,
        \<lparr>option_text = ''Cornwall'', QuestionOption.isCorrect = True, QuestionOption.order = 4\<rparr>]\<rparr>"

definition q_004 :: Question where
  "q_004 =
     \<lparr>question_id = ''q-004'',
      question_text = ''Why does the west coast of the UK receive more rainfall than the east coast?'',
      Question.order = 4,
      irt_a = 1.10, irt_b = 0.20, irt_c = 0.25,
      Question.bloom = 2, Question.kc = ''westerly_winds_rainfall'',
      Question.quizId = ''quiz-uk-geo-adaptive'',
      Question.options =
       [\<lparr>option_text = ''The east coast is warmer due to the North Sea current'', QuestionOption.isCorrect = False, QuestionOption.order = 1\<rparr>,
        \<lparr>option_text = ''Prevailing westerly winds bring moist air from the Atlantic'', QuestionOption.isCorrect = True, QuestionOption.order = 2\<rparr>,
        \<lparr>option_text = ''The west coast has higher elevation throughout'', QuestionOption.isCorrect = False, QuestionOption.order = 3\<rparr>,
        \<lparr>option_text = ''Urban heat islands create more precipitation in western cities'', QuestionOption.isCorrect = False, QuestionOption.order = 4\<rparr>]\<rparr>"

definition q_005 :: Question where
  "q_005 =
     \<lparr>question_id = ''q-005'',
      question_text = ''Which area of England lies in the rain shadow of the Pennines?'',
      Question.order = 5,
      irt_a = 1.30, irt_b = 0.50, irt_c = 0.25,
      Question.bloom = 2, Question.kc = ''pennines_rain_shadow'',
      Question.quizId = ''quiz-uk-geo-adaptive'',
      Question.options =
       [\<lparr>option_text = ''The Lake District'', QuestionOption.isCorrect = False, QuestionOption.order = 1\<rparr>,
        \<lparr>option_text = ''The Yorkshire Dales'', QuestionOption.isCorrect = False, QuestionOption.order = 2\<rparr>,
        \<lparr>option_text = ''The Vale of York'', QuestionOption.isCorrect = True, QuestionOption.order = 3\<rparr>,
        \<lparr>option_text = ''The Peak District'', QuestionOption.isCorrect = False, QuestionOption.order = 4\<rparr>]\<rparr>"

definition questionsData :: "Question list" where
  "questionsData = [q_001, q_002, q_003, q_004, q_005]"

definition irt_bank :: "IRTQuestion list" where
  "irt_bank = map toIRTQuestion questionsData"

text \<open>The criteria of the first request of an adaptive session: nothing answered yet.\<close>

definition first_pick :: NextQuestionCriteria where
  "first_pick = \<lparr>targetTheta = THETA_INITIAL, excludeIds = [], bloomLevel = None\<rparr>"

section \<open>Inputs used by the examples\<close>




text \<open>Degenerate parameters: a learner who always slips and never guesses.\<close>

definition always_slip :: BKTParams where
  "always_slip = bkt_params 0.5 0.25 1 0"

definition never_slip_always_guess :: BKTParams where
  "never_slip_always_guess = bkt_params 0.5 0.25 0 1"

section \<open>Sequences of calls\<close>



subsection \<open>Stores used by the examples\<close>

definition initialiseAllKCs :: "string \<rightharpoonup> KCState" where
  "initialiseAllKCs = map_of (map (\<lambda>(k, ps). (k, initialiseKC k ps)) DEFAULT_BKT_PARAMS_list)"

definition fresh_session :: Session where
  "fresh_session =
     \<lparr>session_id = ''session-1'', userId = ''user-1'',
      Session.quizId = ''quiz-uk-geo-adaptive'', condition = ''adaptive'',
      completedAt = None, Session.theta = THETA_INITIAL, thetaSd = THETA_INITIAL_SD,
      Session.kcStates = initialiseAllKCs\<rparr>"

definition seeded_db :: Db where
  "seeded_db =
     \<lparr>sessions = [''session-1'' \<mapsto> fresh_session],
      questions = questionsData,
      interactions = []\<rparr>"







section \<open>The posterior of the estimator, named\<close>

text \<open>
  The intermediate lists of \<open>eapEstimate\<close>, as constants of their own, for the statements
  about the estimate.
\<close>

definition likelihoods :: "Response list \<Rightarrow> real \<Rightarrow> real \<Rightarrow> real list" where
  "likelihoods responses priorMean priorSd =
     map (\<lambda>i. likelihood_at responses (grid ! i) (prior_weights priorMean priorSd ! i))
         [0..<length grid]"

definition posterior_of :: "Response list \<Rightarrow> real \<Rightarrow> real \<Rightarrow> real list" where
  "posterior_of responses priorMean priorSd =
     map (\<lambda>l. l / foldl (\<lambda>x y. x + y) 0 (likelihoods responses priorMean priorSd))
         (likelihoods responses priorMean priorSd)"

definition valid_responses :: "Response list \<Rightarrow> bool" where
  "valid_responses responses \<longleftrightarrow> list_all (\<lambda>r. valid_params (params r)) responses"

subsection \<open>Inputs of the estimator used by the examples\<close>





section \<open>Fixed-point enclosures of the Gaussian weights\<close>

text \<open>
  Under the default prior the weight of the grid point at distance \<open>n / 100\<close> from the
  prior mean is \<open>exp (- (50 / 294849)) ^ n\<^sup>2\<close>, with \<open>n = 3, 8, 13, \<dots>\<close> above the mean and
  \<open>n = 2, 7, 12, \<dots>\<close> below it. The weights and their first three moments are enclosed
  by natural numbers in units of \<open>1 / scale\<close>, each product rounded downwards (\<open>rnd = 0\<close>,
  for a lower bound) or upwards (\<open>rnd = 1\<close>, for an upper bound).
\<close>

definition scale :: nat where
  "scale = 10 ^ 6"

definition x0 :: real where
  "x0 = 50 / 294849"

definition z0 :: real where
  "z0 = exp (- x0)"

definition mulr :: "nat \<Rightarrow> nat \<Rightarrow> nat \<Rightarrow> nat" where
  "mulr rnd u v = u * v div scale + rnd"

fun ipow :: "nat \<Rightarrow> nat \<Rightarrow> nat \<Rightarrow> nat" where
  "ipow rnd base k = (if k = 0 then scale else mulr rnd (ipow rnd base (k - 1)) base)"

text \<open>
  The sums of \<open>w\<close>, \<open>n * w\<close> and \<open>n\<^sup>2 * w\<close> over \<open>k\<close> successive weights: the next weight is
  \<open>w * r\<close>, the next ratio \<open>r * q\<close>.
\<close>

fun run ::
  "nat \<Rightarrow> nat \<Rightarrow> nat \<Rightarrow> nat \<Rightarrow> nat \<Rightarrow> nat \<Rightarrow> nat \<Rightarrow> nat \<Rightarrow> nat \<Rightarrow> nat \<times> nat \<times> nat" where
  "run rnd q k n w r s0 s1 s2 =
     (if k = 0 then (s0, s1, s2)
      else run rnd q (k - 1) (n + 5) (mulr rnd w r) (mulr rnd r q)
             (s0 + w) (s1 + n * w) (s2 + n * n * w))"

declare ipow.simps [simp del]

declare run.simps [simp del]

text \<open>The moments themselves: \<open>gsum z p k n\<close> is the sum of \<open>(n + 5 j) ^ p * z ^ (n + 5 j)\<^sup>2\<close> over \<open>j < k\<close>.\<close>

fun gsum :: "real \<Rightarrow> nat \<Rightarrow> nat \<Rightarrow> nat \<Rightarrow> real" where
  "gsum z p 0 n = 0"
| "gsum z p (Suc k) n = real n ^ p * z ^ (n ^ 2) + gsum z p k (n + 5)"

section \<open>Knowledge tracing: results\<close>

lemma js_sub_Fin: "js_sub (Fin x) (Fin y) = Fin (x - y)"
  by (simp add: js_sub_def)

lemma js_sub_NaN: "js_sub x NaN = NaN"
  by (cases x) (simp_all add: js_sub_def)

lemma js_div_zero_zero: "x = 0 \<Longrightarrow> y = 0 \<Longrightarrow> js_div (Fin x) (Fin y) = NaN"
  by simp

lemma DEFAULT_BKT_PARAMS_UK_capitals: "DEFAULT_BKT_PARAMS ''UK_capitals'' = Some UK_capitals"
  by (simp add: DEFAULT_BKT_PARAMS_def DEFAULT_BKT_PARAMS_list_def UK_capitals_def)

text \<open>
  With probabilities in \<open>[0, 1]\<close> both summands of a denominator are non-negative, so a
  zero denominator has a zero numerator.
\<close>

lemma zero_pCorrect_numerator:
  assumes "0 \<le> p" "p \<le> 1" "0 \<le> s" "s \<le> 1" "0 \<le> g" "g \<le> 1"
    and "pCorrect_of p s g = 0"
  shows "p * (1 - s) = 0"
proof -
  have "0 \<le> p * (1 - s)" "0 \<le> (1 - p) * g" using assms by simp_all
  with assms(7) show ?thesis unfolding pCorrect_of_def by linarith
qed

lemma zero_pIncorrect_numerator:
  assumes "0 \<le> p" "p \<le> 1" "0 \<le> s" "s \<le> 1" "0 \<le> g" "g \<le> 1"
    and "pIncorrect_of p s g = 0"
  shows "p * s = 0"
proof -
  have "0 \<le> p * s" "0 \<le> (1 - p) * (1 - g)" using assms by simp_all
  with assms(7) show ?thesis unfolding pIncorrect_of_def by linarith
qed

text \<open>
  C7. With the parameters of \<open>UK_capitals\<close> (pL0 = 0.60, pT = 0.25, pS = 0.08,
  pG = 0.25), \<open>updateBKT\<close> applied to pLearned = 0.60 and a correct response returns
  pLearned_after = 577/652, which is within 1e-6 of
  0.60 * 0.92 / (0.60 * 0.92 + 0.40 * 0.25) + (1 - 0.60 * 0.92 / (0.60 * 0.92 + 0.40 * 0.25)) * 0.25
  (about 0.885), and isMastered = false.
\<close>

theorem updateBKT_UK_capitals_correct:
  "DEFAULT_BKT_PARAMS ''UK_capitals'' = Some UK_capitals
   \<and> updateBKT (Fin 0.60) True UK_capitals =
       Inr \<lparr>BKTUpdateResult.pLearned_before = Fin 0.60,
            BKTUpdateResult.pLearned_after = Fin (577 / 652),
            BKTUpdateResult.isMastered = False\<rparr>
   \<and> \<bar>577 / 652 - (0.60 * 0.92 / (0.60 * 0.92 + 0.40 * 0.25)
          + (1 - 0.60 * 0.92 / (0.60 * 0.92 + 0.40 * 0.25)) * 0.25)\<bar> \<le> (1 / 10 ^ 6 :: real)
   \<and> \<bar>577 / 652 - 0.885\<bar> \<le> (1 / 10 ^ 4 :: real)"
proof (intro conjI)
  show "DEFAULT_BKT_PARAMS ''UK_capitals'' = Some UK_capitals"
    by (rule DEFAULT_BKT_PARAMS_UK_capitals)
  show "updateBKT (Fin 0.60) True UK_capitals =
       Inr \<lparr>BKTUpdateResult.pLearned_before = Fin 0.60,
            BKTUpdateResult.pLearned_after = Fin (577 / 652),
            BKTUpdateResult.isMastered = False\<rparr>"
    by (simp add: updateBKT_def UK_capitals_def bkt_params_def js_sub_Fin
        MASTERY_THRESHOLD_def Let_def)
qed simp_all

text \<open>
  C3, as the code has it. \<open>updateBKT\<close> does not test its denominators and never fails.
  For every pLearned and parameters pS, pG in \<open>[0, 1]\<close> whose Bayesian-update denominator
  is zero (for a correct response pLearned * (1 - pS) + (1 - pLearned) * pG, for an
  incorrect one pLearned * pS + (1 - pLearned) * (1 - pG)), the division is 0 / 0: the
  call returns a result whose pLearned_after is NaN (the clamp lets NaN through) and
  whose isMastered is false.
\<close>

theorem updateBKT_zero_denominator_returns_NaN:
  assumes "0 \<le> p" "p \<le> 1" "0 \<le> s" "s \<le> 1" "0 \<le> g" "g \<le> 1"
    and "bkt_denominator isCorrect' p s g = 0"
  shows "updateBKT (Fin p) isCorrect' \<lparr>pL0 = l, pT = t, pS = Fin s, pG = Fin g\<rparr> =
     Inr \<lparr>BKTUpdateResult.pLearned_before = Fin p,
          BKTUpdateResult.pLearned_after = NaN,
          BKTUpdateResult.isMastered = False\<rparr>"
proof (cases isCorrect')
  case True
  with assms have d: "pCorrect_of p s g = 0" by (simp add: bkt_denominator_def)
  have n: "p * (1 - s) = 0" using zero_pCorrect_numerator[OF assms(1-6) d] .
  have "js_div (Fin (p * (1 - s))) (Fin (pCorrect_of p s g)) = NaN"
    by (rule js_div_zero_zero[OF n d])
  then have q: "js_div (js_mul (Fin p) (js_sub (Fin 1) (Fin s)))
            (js_add (js_mul (Fin p) (js_sub (Fin 1) (Fin s)))
                    (js_mul (js_sub (Fin 1) (Fin p)) (Fin g))) = NaN"
    by (simp only: js_sub_Fin js_mul.simps js_add.simps pCorrect_of_def)
  show ?thesis
    unfolding updateBKT_def using True
    by (simp only: if_True BKTParams.simps Let_def[of "js_add _ _"] Let_def[of "js_div _ _"] q)
       (simp add: js_sub_NaN)
next
  case False
  with assms have d: "pIncorrect_of p s g = 0" by (simp add: bkt_denominator_def)
  have n: "p * s = 0" using zero_pIncorrect_numerator[OF assms(1-6) d] .
  have "js_div (Fin (p * s)) (Fin (pIncorrect_of p s g)) = NaN"
    by (rule js_div_zero_zero[OF n d])
  then have q: "js_div (js_mul (Fin p) (Fin s))
            (js_add (js_mul (Fin p) (Fin s))
                    (js_mul (js_sub (Fin 1) (Fin p)) (js_sub (Fin 1) (Fin g)))) = NaN"
    by (simp only: js_sub_Fin js_mul.simps js_add.simps pIncorrect_of_def)
  show ?thesis
    unfolding updateBKT_def using False
    by (simp only: if_False BKTParams.simps Let_def[of "js_add _ _"] Let_def[of "js_div _ _"] q)
       (simp add: js_sub_NaN)
qed

text \<open>An incorrect response under pS = 0, pG = 1 and pLearned = 1/2: the denominator is zero.\<close>

theorem updateBKT_zero_denominator_returns_NaN_witness:
  "(0::real) \<le> 1 / 2 \<and> (1 / 2 :: real) \<le> 1 \<and> (0::real) \<le> 0 \<and> (0::real) \<le> 1
   \<and> (0::real) \<le> 1 \<and> (1::real) \<le> 1
   \<and> bkt_denominator False (1 / 2) 0 1 = 0
   \<and> updateBKT (Fin (1 / 2)) False never_slip_always_guess =
       Inr \<lparr>BKTUpdateResult.pLearned_before = Fin (1 / 2),
            BKTUpdateResult.pLearned_after = NaN,
            BKTUpdateResult.isMastered = False\<rparr>"
  using updateBKT_zero_denominator_returns_NaN
          [of "1 / 2" 0 1 False "Fin (1 / 2)" "Fin (1 / 4)"]
  by (simp add: bkt_denominator_def pIncorrect_of_def never_slip_always_guess_def bkt_params_def)

text \<open>
  The claim as stated fails: with pS = 1, pG = 0 and pLearned = 1/2 the denominator
  of a correct response is zero, and the call returns a result, not \<open>NumericError\<close>.
\<close>

theorem updateBKT_no_NumericError_counterexample:
  "bkt_denominator True (1 / 2) 1 0 = 0
   \<and> updateBKT (Fin (1 / 2)) True always_slip \<noteq> Inl NumericError
   \<and> updateBKT (Fin (1 / 2)) True always_slip =
       Inr \<lparr>BKTUpdateResult.pLearned_before = Fin (1 / 2),
            BKTUpdateResult.pLearned_after = NaN,
            BKTUpdateResult.isMastered = False\<rparr>"
  by (simp add: bkt_denominator_def pCorrect_of_def updateBKT_def always_slip_def
      bkt_params_def js_sub_Fin MASTERY_THRESHOLD_def Let_def)

section \<open>Item response theory: results\<close>

subsection \<open>The range of the response function\<close>

lemma one_plus_exp_pos: "0 < 1 + exp (x::real)"
  by (rule add_pos_pos) simp_all

text \<open>
  The head of a stable sort is the first element of least key: every element before it
  in the input has a strictly greater key.
\<close>

lemma hd_insort_key:
  "hd (insort_key f x ys) = (if ys = [] \<or> f x \<le> f (hd ys) then x else hd ys)"
  by (cases ys) auto

lemma sort_key_Nil_iff: "sort_key f xs = [] \<longleftrightarrow> xs = []"
  by (metis length_sort list.size(3) length_0_conv)

lemma hd_sort_key:
  "xs \<noteq> [] \<Longrightarrow> \<exists>pre post. xs = pre @ hd (sort_key f xs) # post \<and>
      (\<forall>y \<in> set pre. f (hd (sort_key f xs)) < f y) \<and> (\<forall>y \<in> set post. f (hd (sort_key f xs)) \<le> f y)"
proof (induction xs)
  case Nil then show ?case by simp
next
  case (Cons x xs)
  show ?case
  proof (cases "xs = []")
    case True
    then show ?thesis by (intro exI[of _ "[]"]) simp
  next
    case False
    from Cons.IH[OF False] obtain pre post where
      e: "xs = pre @ hd (sort_key f xs) # post"
      and l: "\<forall>y \<in> set pre. f (hd (sort_key f xs)) < f y"
      and r: "\<forall>y \<in> set post. f (hd (sort_key f xs)) \<le> f y" by blast
    let ?h = "hd (sort_key f xs)"
    have ne: "sort_key f xs \<noteq> []" using False by (simp add: sort_key_Nil_iff)
    have hd_eq: "hd (sort_key f (x # xs)) = (if f x \<le> f ?h then x else ?h)"
      using ne by (simp add: hd_insort_key)
    show ?thesis
    proof (cases "f x \<le> f ?h")
      case True
      have "\<forall>y \<in> set xs. f x \<le> f y"
      proof
        fix y assume "y \<in> set xs"
        then have "y \<in> set pre \<or> y = ?h \<or> y \<in> set post" by (subst (asm) e) auto
        then show "f x \<le> f y" using l r True by fastforce
      qed
      moreover have hx: "hd (sort_key f (x # xs)) = x" using hd_eq True by simp
      ultimately show ?thesis unfolding hx by (intro exI[of _ "[]"] exI[of _ xs]) simp
    next
      case False
      then have hx: "hd (sort_key f (x # xs)) = ?h" using hd_eq by simp
      have "x # xs = (x # pre) @ ?h # post" using e by simp
      moreover have "\<forall>y \<in> set (x # pre). f ?h < f y" using False l by auto
      ultimately show ?thesis unfolding hx using r by blast
    qed
  qed
qed

lemma logistic_pos: "0 < 1 / (1 + exp (x::real))"
  using one_plus_exp_pos[of x] by simp

lemma logistic_less_one: "1 / (1 + exp (x::real)) < 1"
proof -
  have "1 < 1 + exp x" using exp_gt_zero[of x] by linarith
  with one_plus_exp_pos[of x] show ?thesis by (simp only: divide_less_eq_1_pos)
qed

lemma p3PL_logistic:
  "p3PL th ps = c ps + (1 - c ps) * (1 / (1 + exp (- D * a ps * (th - b ps))))"
  by (simp add: p3PL_def)

lemma p3PL_bounds:
  assumes "c ps < 1"
  shows "c ps < p3PL th ps" and "p3PL th ps < 1"
proof -
  define s where "s = 1 / (1 + exp (- D * a ps * (th - b ps)))"
  have s: "0 < s" "s < 1" unfolding s_def by (rule logistic_pos, rule logistic_less_one)
  have p: "p3PL th ps = c ps + (1 - c ps) * s"
    unfolding s_def by (rule p3PL_logistic)
  have c1: "0 < 1 - c ps" using assms by simp
  have "0 < (1 - c ps) * s" using c1 s by simp
  then show "c ps < p3PL th ps" unfolding p by simp
  have "(1 - c ps) * s < (1 - c ps) * 1"
    using c1 s by (simp only: mult_less_cancel_left_pos)
  then show "p3PL th ps < 1" unfolding p by simp
qed



subsection \<open>The selected item\<close>

lemma selectNextQuestion_first_max:
  assumes "eligible_items qs cr \<noteq> []"
  shows "\<exists>q pre post. selectNextQuestion qs cr = Some q \<and>
            eligible_items qs cr = pre @ q # post \<and>
            (\<forall>y \<in> set pre. itemInformation (targetTheta cr) y
                              < itemInformation (targetTheta cr) q) \<and>
            (\<forall>y \<in> set post. itemInformation (targetTheta cr) y
                              \<le> itemInformation (targetTheta cr) q)"
proof -
  let ?th = "targetTheta cr"
  let ?el = "eligible_items qs cr"
  let ?sc = "map (\<lambda>q. \<lparr>question = q, info = itemInformation ?th q\<rparr>) ?el"
  let ?f = "\<lambda>s::scored_item. - info s"
  let ?h = "hd (sort_key ?f ?sc)"
  have ne: "?sc \<noteq> []" using assms by simp
  from hd_sort_key[OF ne, of ?f] obtain pre post where
    e: "?sc = pre @ ?h # post"
    and l: "\<forall>y \<in> set pre. ?f ?h < ?f y"
    and r: "\<forall>y \<in> set post. ?f ?h \<le> ?f y" by blast
  have sel: "selectNextQuestion qs cr = Some (question ?h)"
    using assms by (simp add: selectNextQuestion_def Let_def)
  have unsc: "map question ?sc = ?el" by (simp add: comp_def)
  have infs: "\<And>s. s \<in> set ?sc \<Longrightarrow> info s = itemInformation ?th (question s)" by auto
  have el: "?el = map question pre @ question ?h # map question post"
    using arg_cong[OF e, of "map question"] unsc by simp
  have hin: "?h \<in> set ?sc" by (subst (2) e) simp
  have ih: "info ?h = itemInformation ?th (question ?h)" using infs[OF hin] .
  have l': "\<forall>y \<in> set (map question pre). itemInformation ?th y < itemInformation ?th (question ?h)"
  proof
    fix y assume "y \<in> set (map question pre)"
    then obtain s where s: "s \<in> set pre" "y = question s" by auto
    then have "s \<in> set ?sc" by (subst e) simp
    with infs have "info s = itemInformation ?th y" using s by blast
    moreover have "info s < info ?h" using l s by auto
    ultimately show "itemInformation ?th y < itemInformation ?th (question ?h)" using ih by simp
  qed
  have r': "\<forall>y \<in> set (map question post). itemInformation ?th y \<le> itemInformation ?th (question ?h)"
  proof
    fix y assume "y \<in> set (map question post)"
    then obtain s where s: "s \<in> set post" "y = question s" by auto
    then have "s \<in> set ?sc" by (subst e) simp
    with infs have "info s = itemInformation ?th y" using s by blast
    moreover have "info s \<le> info ?h" using r s by auto
    ultimately show "itemInformation ?th y \<le> itemInformation ?th (question ?h)" using ih by simp
  qed
  from sel el l' r' show ?thesis by blast
qed









subsection \<open>The information function in closed form\<close>

lemma info_fraction:
  fixes u w m e n :: real
  assumes "u \<noteq> 0" "w \<noteq> 0"
  shows "n * ((u / w) ^ 2) / (u ^ 2 * (m / w) * (u * e / w)) = n / (u * e * m)"
proof -
  have "n * ((u / w) ^ 2) = (n * u ^ 2) / w ^ 2" by (simp add: power_divide)
  moreover have "u ^ 2 * (m / w) * (u * e / w) = (u ^ 2 * (u * e * m)) / w ^ 2"
    by (simp add: power2_eq_square)
  ultimately have "n * ((u / w) ^ 2) / (u ^ 2 * (m / w) * (u * e / w))
      = ((n * u ^ 2) / w ^ 2) / ((u ^ 2 * (u * e * m)) / w ^ 2)" by simp
  also have "\<dots> = (n * u ^ 2) / (u ^ 2 * (u * e * m))"
    using assms by simp
  also have "\<dots> = n / (u * e * m)"
    using assms by simp
  finally show ?thesis .
qed

lemma itemInformation_closed:
  assumes v: "valid_params ps"
  shows "itemInformation th ps =
           D ^ 2 * (a ps) ^ 2
           / ((1 - c ps) * exp (- D * a ps * (th - b ps))
              * (1 + c ps * exp (- D * a ps * (th - b ps))))"
proof -
  define E where "E = exp (- D * a ps * (th - b ps))"
  define k where "k = c ps"
  have E: "0 < E" by (simp add: E_def)
  have k: "0 \<le> k" "k < 1" using v by (simp_all add: valid_params_def k_def)
  have nz: "1 + E \<noteq> 0" "1 - k \<noteq> 0" "E \<noteq> 0" using E k by simp_all
  have kE: "0 < 1 + k * E" using E k by (simp add: add_pos_nonneg)
  have p: "p3PL th ps = (1 + k * E) / (1 + E)"
    unfolding p3PL_def E_def[symmetric] k_def[symmetric] using nz by (simp add: field_simps)
  have q: "1 - p3PL th ps = (1 - k) * E / (1 + E)"
    unfolding p using nz by (simp add: field_simps)
  have r: "p3PL th ps - k = (1 - k) / (1 + E)"
    unfolding p using nz by (simp add: field_simps)
  have "itemInformation th ps =
          D ^ 2 * (a ps) ^ 2 * ((p3PL th ps - k) ^ 2)
          / ((1 - k) ^ 2 * p3PL th ps * (1 - p3PL th ps))"
    by (simp add: itemInformation_def Let_def k_def)
  also have "\<dots> = D ^ 2 * (a ps) ^ 2 * (((1 - k) / (1 + E)) ^ 2)
          / ((1 - k) ^ 2 * ((1 + k * E) / (1 + E)) * ((1 - k) * E / (1 + E)))"
    by (simp only: r q) (simp only: p)
  also have "\<dots> = D ^ 2 * (a ps) ^ 2 / ((1 - k) * E * (1 + k * E))"
    by (rule info_fraction[OF nz(2) nz(1)])
  finally show ?thesis unfolding E_def k_def .
qed

subsection \<open>The first pick on the seeded bank\<close>

lemma div_antimono:
  fixes n x y :: real
  assumes "0 \<le> n" "0 < x" "x \<le> y"
  shows "n / y \<le> n / x"
  using assms by (intro frac_le) simp_all

lemma info_upper:
  assumes v: "valid_params ps" and L: "0 < L" "L \<le> exp (- D * a ps * (th - b ps))"
  shows "itemInformation th ps \<le> D ^ 2 * (a ps) ^ 2 / ((1 - c ps) * L)"
proof -
  define E where "E = exp (- D * a ps * (th - b ps))"
  have k: "0 \<le> c ps" "0 < 1 - c ps" using v by (simp_all add: valid_params_def)
  have E: "0 < E" "L \<le> E" using L by (simp_all add: E_def)
  have "L \<le> E * (1 + c ps * E)"
  proof -
    have "0 \<le> E * (c ps * E)" using E k by simp
    then show ?thesis using E by (simp add: algebra_simps)
  qed
  then have "(1 - c ps) * L \<le> (1 - c ps) * (E * (1 + c ps * E))"
    using k by (simp only: mult_le_cancel_left_pos)
  moreover have "0 < (1 - c ps) * L" using k L by simp
  moreover have "0 \<le> D ^ 2 * (a ps) ^ 2" by simp
  ultimately have "D ^ 2 * (a ps) ^ 2 / ((1 - c ps) * (E * (1 + c ps * E)))
                   \<le> D ^ 2 * (a ps) ^ 2 / ((1 - c ps) * L)"
    by (intro div_antimono)
  then show ?thesis
    unfolding itemInformation_closed[OF v] E_def by (simp add: mult.assoc)
qed

lemma info_lower:
  assumes v: "valid_params ps" and U: "exp (- D * a ps * (th - b ps)) \<le> U"
  shows "D ^ 2 * (a ps) ^ 2 / ((1 - c ps) * (U * (1 + c ps * U))) \<le> itemInformation th ps"
proof -
  define E where "E = exp (- D * a ps * (th - b ps))"
  have k: "0 \<le> c ps" "0 < 1 - c ps" using v by (simp_all add: valid_params_def)
  have E: "0 < E" "E \<le> U" using U by (simp_all add: E_def)
  have U0: "0 < U" using E by linarith
  have "c ps * E \<le> c ps * U" using E k by (simp add: mult_left_mono)
  then have "E * (1 + c ps * E) \<le> U * (1 + c ps * U)"
    using E k U0 by (intro mult_mono) simp_all
  then have "(1 - c ps) * (E * (1 + c ps * E)) \<le> (1 - c ps) * (U * (1 + c ps * U))"
    using k by (simp only: mult_le_cancel_left_pos)
  moreover have "0 < (1 - c ps) * (E * (1 + c ps * E))"
    using k E by (simp add: add_pos_nonneg)
  moreover have "0 \<le> D ^ 2 * (a ps) ^ 2" by simp
  ultimately have "D ^ 2 * (a ps) ^ 2 / ((1 - c ps) * (U * (1 + c ps * U)))
                   \<le> D ^ 2 * (a ps) ^ 2 / ((1 - c ps) * (E * (1 + c ps * E)))"
    by (intro div_antimono)
  then show ?thesis
    unfolding itemInformation_closed[OF v] E_def by (simp add: mult.assoc)
qed

lemma exp_q2: "exp (- (918 / 625) :: real) \<le> 1 / 4"
proof -
  have "(2::real) \<le> 1 + 459 / 625 + (459 / 625)\<^sup>2 / 2" by (simp add: power2_eq_square)
  also have "\<dots> \<le> exp (459 / 625)" by (rule exp_lower_Taylor_quadratic) simp
  finally have two: "(2::real) \<le> exp (459 / 625)" .
  have "exp (918 / 625 :: real) = exp (459 / 625) * exp (459 / 625)"
    by (simp add: exp_add[symmetric])
  moreover have "(2::real) * 2 \<le> exp (459 / 625) * exp (459 / 625)"
    using two by (intro mult_mono) simp_all
  ultimately have "(4::real) \<le> exp (918 / 625)" by simp
  then have "1 / exp (918 / 625 :: real) \<le> 1 / 4"
    by (intro divide_left_mono) simp_all
  then show ?thesis by (simp add: exp_minus inverse_eq_divide)
qed

lemma params_simps:
  "a (toIRTQuestion q) = irt_a q" "b (toIRTQuestion q) = irt_b q" "c (toIRTQuestion q) = irt_c q"
  by (simp_all add: toIRTQuestion_def)

lemma valid_toIRT:
  "0 < irt_a q \<Longrightarrow> 0 \<le> irt_c q \<Longrightarrow> irt_c q < 1 \<Longrightarrow> valid_params (toIRTQuestion q)"
  by (simp add: valid_params_def params_simps)

lemma info_q2: "20 < itemInformation THETA_INITIAL (toIRTQuestion q_002)"
proof -
  have v: "valid_params (toIRTQuestion q_002)" by (rule valid_toIRT) (simp_all add: q_002_def)
  have e: "exp (- D * a (toIRTQuestion q_002) * (THETA_INITIAL - b (toIRTQuestion q_002))) \<le> 1 / 4"
    using exp_q2 by (simp add: params_simps q_002_def D_def THETA_INITIAL_def)
  have "(20::real) < D ^ 2 * (a (toIRTQuestion q_002)) ^ 2 / ((1 - c (toIRTQuestion q_002)) * (1 / 4 * (1 + c (toIRTQuestion q_002) * (1 / 4))))"
    by (simp add: params_simps q_002_def D_def power2_eq_square)
  also have "\<dots> \<le> itemInformation THETA_INITIAL (toIRTQuestion q_002)"
    by (rule info_lower[OF v e])
  finally show ?thesis .
qed

lemma info_q1: "itemInformation THETA_INITIAL (toIRTQuestion q_001) < 20"
proof -
  have v: "valid_params (toIRTQuestion q_001)" by (rule valid_toIRT) (simp_all add: q_001_def)
  have "(97 / 100 :: real) \<le> 1 + (- (289 / 10000))" by simp
  also have "\<dots> \<le> exp (- (289 / 10000))" by (rule exp_ge_add_one_self)
  finally have e: "97 / 100 \<le> exp (- D * a (toIRTQuestion q_001) * (THETA_INITIAL - b (toIRTQuestion q_001)))"
    by (simp add: params_simps q_001_def D_def THETA_INITIAL_def)
  have "itemInformation THETA_INITIAL (toIRTQuestion q_001) \<le> D ^ 2 * (a (toIRTQuestion q_001)) ^ 2 / ((1 - c (toIRTQuestion q_001)) * (97 / 100))"
    by (rule info_upper[OF v _ e]) simp
  also have "\<dots> < 20" by (simp add: params_simps q_001_def D_def power2_eq_square)
  finally show ?thesis .
qed

lemma info_hard:
  assumes v: "valid_params ps" and z: "- D * a ps * (th - b ps) \<ge> 0"
    and bnd: "D ^ 2 * (a ps) ^ 2 / (1 - c ps) < 20"
  shows "itemInformation th ps < 20"
proof -
  have e: "1 \<le> exp (- D * a ps * (th - b ps))" using z by simp
  have "itemInformation th ps \<le> D ^ 2 * (a ps) ^ 2 / ((1 - c ps) * 1)"
    by (rule info_upper[OF v _ e]) simp
  with bnd show ?thesis by simp
qed

lemma info_q3: "itemInformation THETA_INITIAL (toIRTQuestion q_003) < 20"
  by (rule info_hard, rule valid_toIRT)
     (simp_all add: params_simps q_003_def D_def THETA_INITIAL_def power2_eq_square)

lemma info_q4: "itemInformation THETA_INITIAL (toIRTQuestion q_004) < 20"
  by (rule info_hard, rule valid_toIRT)
     (simp_all add: params_simps q_004_def D_def THETA_INITIAL_def power2_eq_square)

lemma info_q5: "itemInformation THETA_INITIAL (toIRTQuestion q_005) < 20"
  by (rule info_hard, rule valid_toIRT)
     (simp_all add: params_simps q_005_def D_def THETA_INITIAL_def power2_eq_square)

lemma eligible_first_pick: "eligible_items irt_bank first_pick = irt_bank"
  by (simp add: eligible_items_def first_pick_def)

lemma first_pick_selects_q_002:
  "selectNextQuestion irt_bank first_pick = Some (toIRTQuestion q_002)"
proof -
  let ?th = "THETA_INITIAL"
  let ?I = "itemInformation THETA_INITIAL"
  have ne: "eligible_items irt_bank first_pick \<noteq> []"
    unfolding eligible_first_pick by (simp add: irt_bank_def questionsData_def)
  have tt: "targetTheta first_pick = THETA_INITIAL" by (simp add: first_pick_def)
  from selectNextQuestion_first_max[OF ne, unfolded eligible_first_pick tt] obtain q pre post where
    sel: "selectNextQuestion irt_bank first_pick = Some q"
    and dec: "irt_bank = pre @ q # post"
    and l: "\<forall>y \<in> set pre. ?I y < ?I q" and r: "\<forall>y \<in> set post. ?I y \<le> ?I q"
    by blast
  have all: "\<forall>y \<in> set irt_bank. ?I y \<le> ?I q"
    by (subst dec) (use l r in auto)
  have qin: "q \<in> set irt_bank" by (subst dec) simp
  have "toIRTQuestion q_002 \<in> set irt_bank" by (simp add: irt_bank_def questionsData_def)
  with all have "?I (toIRTQuestion q_002) \<le> ?I q" by blast
  with info_q2 have big: "20 < ?I q" by simp
  from qin have "q = toIRTQuestion q_001 \<or> q = toIRTQuestion q_002 \<or> q = toIRTQuestion q_003
      \<or> q = toIRTQuestion q_004 \<or> q = toIRTQuestion q_005"
    by (simp add: irt_bank_def questionsData_def)
  with big info_q1 info_q3 info_q4 info_q5 have "q = toIRTQuestion q_002" by auto
  with sel show ?thesis by simp
qed

lemma seeded_quiz_questions:
  "quiz_questions seeded_db (Session.quizId fresh_session) = questionsData"
  by (simp add: quiz_questions_def seeded_db_def fresh_session_def questionsData_def
      q_001_def q_002_def q_003_def q_004_def q_005_def)

lemma seeded_next_question:
  "\<exists>payload. nextQuestion seeded_db now ''session-1'' = (Inr (NextQuestion payload), seeded_db)
      \<and> out_questionId payload = ''q-002'' \<and> meta_itemDifficulty payload = - 1.50
      \<and> meta_questionsAnswered payload = 0 \<and> meta_questionsRemaining payload = 5"
proof -
  have s: "sessions seeded_db ''session-1'' = Some fresh_session" by (simp add: seeded_db_def)
  have c: "completedAt fresh_session = None" "condition fresh_session = ''adaptive''"
    "Session.theta fresh_session = THETA_INITIAL"
    by (simp_all add: fresh_session_def)
  have i: "session_interactions seeded_db ''session-1'' = []"
    by (simp add: session_interactions_def seeded_db_def)
  have n: "length questionsData = 5" "questionsData \<noteq> []" by (simp_all add: questionsData_def)
  have sel: "selectNextQuestion (map toIRTQuestion questionsData)
      \<lparr>targetTheta = THETA_INITIAL, excludeIds = [], bloomLevel = None\<rparr> = Some (toIRTQuestion q_002)"
    using first_pick_selects_q_002 by (simp add: irt_bank_def first_pick_def)
  have q: "qid (toIRTQuestion q_002) = ''q-002''" "b (toIRTQuestion q_002) = - 1.50"
    by (simp_all add: toIRTQuestion_def q_002_def)
  show ?thesis
    by (simp add: nextQuestion_def s c i seeded_quiz_questions n sel q Let_def)
qed

text \<open>
  C1. For the seeded bank of five questions (q-001 a=0.85 b=-0.80, q-002 a=1.20
  b=-1.50, q-003 a=0.90 b=-0.60, q-004 a=1.10 b=0.20, q-005 a=1.30 b=0.50, all
  c=0.25), with theta = -0.780 and nothing answered, \<open>selectNextQuestion\<close> returns
  q-002, whose information at theta = -0.780 is strictly above that of the four others;
  the \<open>next-question\<close> route answers a fresh adaptive session on the seeded store with
  the question q-002.
\<close>

theorem seeded_first_pick_is_q_002:
  "selectNextQuestion (map toIRTQuestion questionsData)
      \<lparr>targetTheta = - 0.780, excludeIds = [], bloomLevel = None\<rparr>
     = Some (toIRTQuestion q_002)
   \<and> qid (toIRTQuestion q_002) = ''q-002''
   \<and> itemInformation (- 0.780) (toIRTQuestion q_001)
       < itemInformation (- 0.780) (toIRTQuestion q_002)
   \<and> itemInformation (- 0.780) (toIRTQuestion q_003)
       < itemInformation (- 0.780) (toIRTQuestion q_002)
   \<and> itemInformation (- 0.780) (toIRTQuestion q_004)
       < itemInformation (- 0.780) (toIRTQuestion q_002)
   \<and> itemInformation (- 0.780) (toIRTQuestion q_005)
       < itemInformation (- 0.780) (toIRTQuestion q_002)
   \<and> (\<exists>payload. nextQuestion seeded_db 0 ''session-1''
                     = (Inr (NextQuestion payload), seeded_db)
          \<and> out_questionId payload = ''q-002'')"
proof -
  have route: "\<exists>payload. nextQuestion seeded_db 0 ''session-1''
                     = (Inr (NextQuestion payload), seeded_db)
          \<and> out_questionId payload = ''q-002''"
    using seeded_next_question[of 0] by blast
  have th: "(- 0.780 :: real) = THETA_INITIAL" by (simp add: THETA_INITIAL_def)
  have "selectNextQuestion (map toIRTQuestion questionsData)
      \<lparr>targetTheta = - 0.780, excludeIds = [], bloomLevel = None\<rparr>
     = Some (toIRTQuestion q_002)"
    using first_pick_selects_q_002 unfolding irt_bank_def first_pick_def th .
  moreover have "qid (toIRTQuestion q_002) = ''q-002''"
    by (simp add: toIRTQuestion_def q_002_def)
  ultimately show ?thesis
    unfolding th using info_q1 info_q2 info_q3 info_q4 info_q5 route by simp
qed

section \<open>The session engine: results\<close>

subsection \<open>The outcomes of an answer\<close>












subsection \<open>No second answer to a question\<close>









subsection \<open>Completed sessions\<close>














subsection \<open>The recorded answer\<close>





section \<open>The estimator: results\<close>

subsection \<open>The folds of the estimator as sums\<close>

lemma length_grid: "length grid = 161"
  by (simp add: grid_def THETA_STEPS_def)

lemma step_val: "step = 1 / 20"
  by (simp add: step_def THETA_MAX_def THETA_MIN_def THETA_STEPS_def)

lemma grid_nth: "i < 161 \<Longrightarrow> grid ! i = - 4 + real i / 20"
  by (simp add: grid_def THETA_STEPS_def step_val THETA_MIN_def)

lemma foldl_plus_sum_list: "foldl (\<lambda>x y. x + y) (z::real) xs = z + sum_list xs"
  by (induction xs arbitrary: z) simp_all

lemma foldl_index_sum:
  "foldl (\<lambda>acc i. acc + f i) (z::real) [0..<n] = z + (\<Sum>i<n. f i)"
  by (induction n arbitrary: z) simp_all

lemma sum_list_map_upt: "sum_list (map f [0..<n]) = (\<Sum>i<n. (f i :: real))"
  by (induction n) simp_all

lemma length_likelihoods: "length (likelihoods rs m s) = 161"
  by (simp add: likelihoods_def length_grid)

lemma likelihoods_nth:
  "i < 161 \<Longrightarrow> likelihoods rs m s ! i
     = likelihood_at rs (grid ! i) (exp (- 0.5 * ((grid ! i - m) / s) ^ 2))"
  by (simp add: likelihoods_def length_grid prior_weights_def)

lemma total_likelihood:
  "foldl (\<lambda>x y. x + y) 0 (likelihoods rs m s) = (\<Sum>i<161. likelihoods rs m s ! i)"
proof -
  have "likelihoods rs m s = map (\<lambda>i. likelihoods rs m s ! i) [0..<161]"
    using length_likelihoods[of rs m s] by (metis map_nth)
  then have "sum_list (likelihoods rs m s) = (\<Sum>i<161. likelihoods rs m s ! i)"
    using sum_list_map_upt[of "\<lambda>i. likelihoods rs m s ! i" 161] by simp
  then show ?thesis by (simp add: foldl_plus_sum_list)
qed

lemma posterior_nth:
  "i < 161 \<Longrightarrow> posterior_of rs m s ! i
     = likelihoods rs m s ! i / (\<Sum>j<161. likelihoods rs m s ! j)"
  by (simp add: posterior_of_def length_likelihoods total_likelihood)

lemma eapEstimate_theta:
  "EAPResult.theta (eapEstimate rs m s) = (\<Sum>i<161. grid ! i * posterior_of rs m s ! i)"
  by (simp add: eapEstimate_def Let_def posterior_of_def likelihoods_def foldl_index_sum length_grid)

lemma eapEstimate_sd:
  "sd (eapEstimate rs m s)
     = sqrt (\<Sum>i<161. (grid ! i - EAPResult.theta (eapEstimate rs m s)) ^ 2 * posterior_of rs m s ! i)"
  by (simp add: eapEstimate_def Let_def posterior_of_def likelihoods_def foldl_index_sum length_grid)


subsection \<open>The bounds of the credible interval\<close>


subsection \<open>The posterior is a distribution\<close>

lemma likelihood_at_Nil: "likelihood_at [] t w = w"
  by (simp add: likelihood_at_def)

lemma likelihood_at_Cons:
  "likelihood_at (r # rs) t w =
     likelihood_at rs t (w * (if Response.isCorrect r then p3PL t (params r) else 1 - p3PL t (params r)))"
  by (simp add: likelihood_at_def Let_def)

lemma likelihood_at_pos:
  "valid_responses rs \<Longrightarrow> 0 < w \<Longrightarrow> 0 < likelihood_at rs t w"
proof (induction rs arbitrary: w)
  case Nil
  then show ?case by (simp add: likelihood_at_Nil)
next
  case (Cons r rs)
  then have v: "valid_params (params r)" and vs: "valid_responses rs"
    by (simp_all add: valid_responses_def)
  have k: "0 \<le> c (params r)" "c (params r) < 1" using v by (simp_all add: valid_params_def)
  have "c (params r) < p3PL t (params r)" "p3PL t (params r) < 1"
    using p3PL_bounds[OF k(2)] by simp_all
  with k have "0 < (if Response.isCorrect r then p3PL t (params r) else 1 - p3PL t (params r))"
    by simp
  with Cons.prems(2) have "0 < w * (if Response.isCorrect r then p3PL t (params r) else 1 - p3PL t (params r))"
    by simp
  from Cons.IH[OF vs this] show ?case by (simp only: likelihood_at_Cons)
qed

lemma likelihoods_pos:
  assumes "valid_responses rs" "i < 161"
  shows "0 < likelihoods rs m s ! i"
  using assms by (simp add: likelihoods_nth likelihood_at_pos)

lemma total_pos:
  assumes "valid_responses rs"
  shows "0 < (\<Sum>j<161. likelihoods rs m s ! j)"
proof (rule sum_pos)
  have "(0::nat) \<in> {..<161}" by simp
  then show "{..<161::nat} \<noteq> {}" by blast
qed (use assms in \<open>simp_all add: likelihoods_pos\<close>)

lemma posterior_nonneg:
  assumes "valid_responses rs" "i < 161"
  shows "0 \<le> posterior_of rs m s ! i"
  using likelihoods_pos[OF assms, of m s] total_pos[OF assms(1), of m s] assms(2)
  by (simp add: posterior_nth)

lemma posterior_sum:
  assumes "valid_responses rs"
  shows "(\<Sum>i<161. posterior_of rs m s ! i) = 1"
proof -
  have "(\<Sum>i<161. posterior_of rs m s ! i)
        = (\<Sum>i<161. likelihoods rs m s ! i / (\<Sum>j<161. likelihoods rs m s ! j))"
    by (rule sum.cong) (simp_all add: posterior_nth)
  also have "\<dots> = (\<Sum>i<161. likelihoods rs m s ! i) / (\<Sum>j<161. likelihoods rs m s ! j)"
    by (simp only: sum_divide_distrib[symmetric])
  also have "\<dots> = 1" using total_pos[OF assms, of m s] by simp
  finally show ?thesis .
qed

lemma grid_range: "i < 161 \<Longrightarrow> - 4 \<le> grid ! i \<and> grid ! i \<le> 4"
  by (simp add: grid_nth)


lemma theta_in_grid_range:
  assumes "valid_responses rs"
  shows "- 4 \<le> EAPResult.theta (eapEstimate rs m s)" "EAPResult.theta (eapEstimate rs m s) \<le> 4"
proof -
  let ?p = "\<lambda>i. posterior_of rs m s ! i"
  have "(\<Sum>i<161. (- 4) * ?p i) \<le> (\<Sum>i<161. grid ! i * ?p i)"
  proof (rule sum_mono)
    fix i :: nat assume "i \<in> {..<161}"
    then have i: "i < 161" by simp
    show "(- 4) * ?p i \<le> grid ! i * ?p i"
      using posterior_nonneg[OF assms i, of m s] grid_range[OF i]
      by (intro mult_right_mono) simp_all
  qed
  moreover have "(\<Sum>i<161. (- 4) * ?p i) = (- 4) * (\<Sum>i<161. ?p i)"
    by (rule sum_distrib_left[symmetric])
  moreover note posterior_sum[OF assms, of m s]
  ultimately show "- 4 \<le> EAPResult.theta (eapEstimate rs m s)" by (simp add: eapEstimate_theta)
  have "(\<Sum>i<161. grid ! i * ?p i) \<le> (\<Sum>i<161. 4 * ?p i)"
  proof (rule sum_mono)
    fix i :: nat assume "i \<in> {..<161}"
    then have i: "i < 161" by simp
    show "grid ! i * ?p i \<le> 4 * ?p i"
      using posterior_nonneg[OF assms i, of m s] grid_range[OF i]
      by (intro mult_right_mono) simp_all
  qed
  moreover have "(\<Sum>i<161. 4 * ?p i) = 4 * (\<Sum>i<161. ?p i)"
    by (rule sum_distrib_left[symmetric])
  moreover note posterior_sum[OF assms, of m s]
  ultimately show "EAPResult.theta (eapEstimate rs m s) \<le> 4" by (simp add: eapEstimate_theta)
qed



subsection \<open>A posterior with a peak and a thin floor\<close>



























section \<open>The estimate of the default prior\<close>

subsection \<open>Rounded products enclose the exact ones\<close>

lemma scale_pos: "0 < real scale"
  by (simp add: scale_def)

lemma real_div_upper:
  assumes "0 < d"
  shows "real n / real d \<le> real (n div d) + 1"
proof -
  have "real n / real d = real (n div d) + real (n mod d) / real d"
    by (rule of_nat_of_nat_div_aux)
  moreover have "real (n mod d) / real d \<le> 1"
    using assms by (simp add: divide_le_eq_1 less_imp_le)
  ultimately show ?thesis by linarith
qed

lemma pow_square_step: "z ^ ((n + 5) ^ 2) = z ^ (n ^ 2) * z ^ (10 * n + 25)" for z :: real
proof -
  have "(n + 5) ^ 2 = n ^ 2 + (10 * n + 25)" by (simp add: power2_eq_square algebra_simps)
  then show ?thesis by (simp only: power_add)
qed

lemma pow_ratio_step: "z ^ (10 * (n + 5) + 25) = z ^ (10 * n + 25) * z ^ 50" for z :: real
proof -
  have "10 * (n + 5) + 25 = (10 * n + 25) + 50" by simp
  then show ?thesis by (simp only: power_add)
qed

lemma mulr_lower:
  assumes "real u \<le> real scale * x" "real v \<le> real scale * y"
  shows "real (mulr 0 u v) \<le> real scale * (x * y)"
proof -
  have sx: "0 \<le> real scale * x" using assms(1) of_nat_0_le_iff[of u] by linarith
  have "real (mulr 0 u v) \<le> real (u * v) / real scale"
    unfolding mulr_def using of_nat_div_le_of_nat[of "u * v" scale, where ?'a = real] by simp
  also have "\<dots> = (real u * real v) / real scale" by simp
  also have "\<dots> \<le> ((real scale * x) * (real scale * y)) / real scale"
    by (intro divide_right_mono mult_mono assms sx) simp_all
  also have "\<dots> = real scale * (x * y)" using scale_pos by simp
  finally show ?thesis .
qed

lemma mulr_upper:
  assumes "real scale * x \<le> real u" "real scale * y \<le> real v" "0 \<le> x" "0 \<le> y"
  shows "real scale * (x * y) \<le> real (mulr 1 u v)"
proof -
  have "real scale * (x * y) = ((real scale * x) * (real scale * y)) / real scale"
    using scale_pos by simp
  also have "\<dots> \<le> (real u * real v) / real scale"
    using assms scale_pos by (intro divide_right_mono mult_mono) simp_all
  also have "\<dots> = real (u * v) / real scale" by simp
  also have "\<dots> \<le> real (u * v div scale) + 1"
    by (rule real_div_upper) (simp add: scale_def)
  also have "\<dots> = real (mulr 1 u v)" by (simp add: mulr_def)
  finally show ?thesis .
qed

lemma ipow_lower:
  assumes "real base \<le> real scale * z"
  shows "real (ipow 0 base k) \<le> real scale * z ^ k"
proof (induction k)
  case 0
  then show ?case by (simp add: ipow.simps)
next
  case (Suc k)
  have "ipow 0 base (Suc k) = mulr 0 (ipow 0 base k) base" by (subst ipow.simps) simp
  then show ?case using mulr_lower[OF Suc.IH assms] by (simp add: mult.commute)
qed

lemma ipow_upper:
  assumes "real scale * z \<le> real base" "0 \<le> z"
  shows "real scale * z ^ k \<le> real (ipow 1 base k)"
proof (induction k)
  case 0
  then show ?case by (simp add: ipow.simps)
next
  case (Suc k)
  have "ipow 1 base (Suc k) = mulr 1 (ipow 1 base k) base" by (subst ipow.simps) simp
  then show ?case using mulr_upper[OF Suc.IH assms(1) _ assms(2)] assms(2) by (simp add: mult.commute)
qed

lemma run_Suc:
  "run rnd q (Suc k) n w r s0 s1 s2 =
     run rnd q k (n + 5) (mulr rnd w r) (mulr rnd r q) (s0 + w) (s1 + n * w) (s2 + n * n * w)"
  by (subst run.simps) simp

lemma run_lower:
  assumes q: "real q \<le> real scale * z ^ 50"
  shows "real w \<le> real scale * z ^ (n ^ 2) \<Longrightarrow> real r \<le> real scale * z ^ (10 * n + 25) \<Longrightarrow>
     run 0 q k n w r s0 s1 s2 = (t0, t1, t2) \<Longrightarrow>
     real t0 \<le> real s0 + real scale * gsum z 0 k n \<and>
     real t1 \<le> real s1 + real scale * gsum z 1 k n \<and>
     real t2 \<le> real s2 + real scale * gsum z 2 k n"
proof (induction k arbitrary: n w r s0 s1 s2)
  case 0
  then show ?case by (simp add: run.simps)
next
  case (Suc k)
  have w': "real (mulr 0 w r) \<le> real scale * z ^ ((n + 5) ^ 2)"
    using mulr_lower[OF Suc.prems(1,2)] by (simp only: pow_square_step)
  have r': "real (mulr 0 r q) \<le> real scale * z ^ (10 * (n + 5) + 25)"
    using mulr_lower[OF Suc.prems(2) q] by (simp only: pow_ratio_step)
  have e: "run 0 q k (n + 5) (mulr 0 w r) (mulr 0 r q) (s0 + w) (s1 + n * w) (s2 + n * n * w) = (t0, t1, t2)"
    using Suc.prems(3) by (simp add: run_Suc)
  from Suc.IH[OF w' r' e] have
    a0: "real t0 \<le> real (s0 + w) + real scale * gsum z 0 k (n + 5)" and
    a1: "real t1 \<le> real (s1 + n * w) + real scale * gsum z 1 k (n + 5)" and
    a2: "real t2 \<le> real (s2 + n * n * w) + real scale * gsum z 2 k (n + 5)" by simp_all
  have n1: "real n * real w \<le> real n * (real scale * z ^ (n ^ 2))"
    using Suc.prems(1) by (intro mult_left_mono) simp_all
  have n2: "real n * real n * real w \<le> real n * real n * (real scale * z ^ (n ^ 2))"
    using Suc.prems(1) by (intro mult_left_mono) simp_all
  show ?case using a0 a1 a2 n1 n2 Suc.prems(1)
    by (simp add: algebra_simps power2_eq_square)
qed

lemma run_upper:
  assumes q: "real scale * z ^ 50 \<le> real q" and z: "0 \<le> z"
  shows "real scale * z ^ (n ^ 2) \<le> real w \<Longrightarrow> real scale * z ^ (10 * n + 25) \<le> real r \<Longrightarrow>
     run 1 q k n w r s0 s1 s2 = (t0, t1, t2) \<Longrightarrow>
     real s0 + real scale * gsum z 0 k n \<le> real t0 \<and>
     real s1 + real scale * gsum z 1 k n \<le> real t1 \<and>
     real s2 + real scale * gsum z 2 k n \<le> real t2"
proof (induction k arbitrary: n w r s0 s1 s2)
  case 0
  then show ?case by (simp add: run.simps)
next
  case (Suc k)
  have zp: "0 \<le> z ^ m" for m using z by simp
  have w': "real scale * z ^ ((n + 5) ^ 2) \<le> real (mulr 1 w r)"
    using mulr_upper[OF Suc.prems(1,2) zp zp] by (simp only: pow_square_step)
  have r': "real scale * z ^ (10 * (n + 5) + 25) \<le> real (mulr 1 r q)"
    using mulr_upper[OF Suc.prems(2) q zp zp] by (simp only: pow_ratio_step)
  have e: "run 1 q k (n + 5) (mulr 1 w r) (mulr 1 r q) (s0 + w) (s1 + n * w) (s2 + n * n * w) = (t0, t1, t2)"
    using Suc.prems(3) by (simp add: run_Suc)
  from Suc.IH[OF w' r' e] have
    a0: "real (s0 + w) + real scale * gsum z 0 k (n + 5) \<le> real t0" and
    a1: "real (s1 + n * w) + real scale * gsum z 1 k (n + 5) \<le> real t1" and
    a2: "real (s2 + n * n * w) + real scale * gsum z 2 k (n + 5) \<le> real t2" by simp_all
  have n1: "real n * (real scale * z ^ (n ^ 2)) \<le> real n * real w"
    using Suc.prems(1) by (intro mult_left_mono) simp_all
  have n2: "real n * real n * (real scale * z ^ (n ^ 2)) \<le> real n * real n * real w"
    using Suc.prems(1) by (intro mult_left_mono) simp_all
  show ?case using a0 a1 a2 n1 n2 Suc.prems(1)
    by (simp add: algebra_simps power2_eq_square)
qed

lemma gsum_sum: "gsum z p k n = (\<Sum>j<k. real (n + 5 * j) ^ p * z ^ ((n + 5 * j) ^ 2))"
proof (induction k arbitrary: n)
  case 0
  then show ?case by simp
next
  case (Suc k)
  have "(\<Sum>j<Suc k. real (n + 5 * j) ^ p * z ^ ((n + 5 * j) ^ 2))
        = real (n + 5 * 0) ^ p * z ^ ((n + 5 * 0) ^ 2)
          + (\<Sum>j<k. real (n + 5 * Suc j) ^ p * z ^ ((n + 5 * Suc j) ^ 2))"
    by (rule sum.lessThan_Suc_shift)
  also have "\<dots> = real n ^ p * z ^ (n ^ 2)
          + (\<Sum>j<k. real (n + 5 + 5 * j) ^ p * z ^ ((n + 5 + 5 * j) ^ 2))"
    by (simp add: add.assoc add.commute)
  finally show ?case using Suc.IH[of "n + 5"] by simp
qed

lemma z0_lower: "real 999830 \<le> real scale * z0"
proof -
  have "(999830 / 10 ^ 6 :: real) \<le> 1 + (- x0)" by (simp add: x0_def)
  also have "\<dots> \<le> z0" unfolding z0_def by (rule exp_ge_add_one_self)
  finally show ?thesis by (simp add: scale_def)
qed

lemma z0_upper: "real scale * z0 \<le> real 999831"
proof -
  have x: "0 \<le> x0" by (simp add: x0_def)
  have "1 + x0 + x0\<^sup>2 / 2 \<le> exp x0" by (rule exp_lower_Taylor_quadratic[OF x])
  moreover have "0 < 1 + x0 + x0\<^sup>2 / 2" using x by (simp add: add_pos_nonneg)
  ultimately have "1 / exp x0 \<le> 1 / (1 + x0 + x0\<^sup>2 / 2)" by (intro divide_left_mono) simp_all
  then have "z0 \<le> 1 / (1 + x0 + x0\<^sup>2 / 2)"
    by (simp add: z0_def exp_minus inverse_eq_divide)
  also have "\<dots> \<le> 999831 / 10 ^ 6" by (simp add: x0_def power2_eq_square)
  finally show ?thesis by (simp add: scale_def)
qed

lemma z0_nonneg: "0 \<le> z0"
  by (simp add: z0_def)

subsection \<open>The weights of the default prior are powers\<close>

lemma default_weight:
  "exp (- 0.5 * ((real k / 100) / THETA_INITIAL_SD) ^ 2) = z0 ^ (k ^ 2)"
proof -
  have "- 0.5 * ((real k / 100) / THETA_INITIAL_SD) ^ 2 = real (k ^ 2) * (- x0)"
    by (simp add: THETA_INITIAL_SD_def x0_def power2_eq_square)
  then show ?thesis unfolding z0_def by (simp only: exp_of_nat_mult)
qed

lemma default_weight_neg:
  "exp (- 0.5 * ((- (real k / 100)) / THETA_INITIAL_SD) ^ 2) = z0 ^ (k ^ 2)"
  using default_weight[of k] by simp

lemma default_offset_above:
  "j < 96 \<Longrightarrow> grid ! (65 + j) - THETA_INITIAL = real (3 + 5 * j) / 100"
  by (simp add: grid_nth THETA_INITIAL_def)

lemma default_offset_below:
  "j < 65 \<Longrightarrow> grid ! (64 - j) - THETA_INITIAL = - (real (2 + 5 * j) / 100)"
  by (simp add: grid_nth THETA_INITIAL_def of_nat_diff field_simps)

lemma default_likelihood_above:
  assumes "j < 96"
  shows "likelihoods [] THETA_INITIAL THETA_INITIAL_SD ! (65 + j) = z0 ^ ((3 + 5 * j) ^ 2)"
proof -
  have "65 + j < 161" using assms by simp
  then show ?thesis
    by (simp only: likelihoods_nth likelihood_at_Nil default_offset_above[OF assms] default_weight)
qed

lemma default_likelihood_below:
  assumes "j < 65"
  shows "likelihoods [] THETA_INITIAL THETA_INITIAL_SD ! (64 - j) = z0 ^ ((2 + 5 * j) ^ 2)"
proof -
  have "64 - j < 161" by simp
  then show ?thesis
    by (simp only: likelihoods_nth likelihood_at_Nil default_offset_below[OF assms] default_weight_neg)
qed

lemma sum_split_at_mean:
  fixes G :: "nat \<Rightarrow> real"
  shows "(\<Sum>i<161. G i) = (\<Sum>j<65. G (64 - j)) + (\<Sum>j<96. G (65 + j))"
proof -
  have "(\<Sum>i<161. G i) = sum G {0..<65} + sum G {65..<161}"
    by (simp add: lessThan_atLeast0 sum.atLeastLessThan_concat)
  moreover have "sum G {65..<161} = (\<Sum>j<96. G (65 + j))"
  proof -
    have "sum G {65..<161} = sum G {0 + 65..<96 + 65}" by simp
    also have "\<dots> = (\<Sum>j\<in>{0..<96}. G (j + 65))" by (rule sum.shift_bounds_nat_ivl)
    finally show ?thesis by (simp add: lessThan_atLeast0 add.commute)
  qed
  moreover have "sum G {0..<65} = (\<Sum>j<65. G (64 - j))"
    using sum.nat_diff_reindex[of G 65] by (simp add: lessThan_atLeast0)
  ultimately show ?thesis by simp
qed

lemma posterior_mean_offset:
  assumes "valid_responses rs"
  shows "EAPResult.theta (eapEstimate rs m s) - m'
           = (\<Sum>i<161. (grid ! i - m') * posterior_of rs m s ! i)"
proof -
  have "(\<Sum>i<161. (grid ! i - m') * posterior_of rs m s ! i)
        = (\<Sum>i<161. grid ! i * posterior_of rs m s ! i) - m' * (\<Sum>i<161. posterior_of rs m s ! i)"
    by (simp add: left_diff_distrib sum_subtractf sum_distrib_left)
  then show ?thesis by (simp add: eapEstimate_theta posterior_sum[OF assms])
qed

lemma posterior_variance_offset:
  assumes "valid_responses rs"
  shows "(\<Sum>i<161. (grid ! i - EAPResult.theta (eapEstimate rs m s)) ^ 2 * posterior_of rs m s ! i)
           = (\<Sum>i<161. (grid ! i - m') ^ 2 * posterior_of rs m s ! i)
             - (EAPResult.theta (eapEstimate rs m s) - m') ^ 2"
proof -
  define t where "t = EAPResult.theta (eapEstimate rs m s)"
  define p where "p = (\<lambda>i. posterior_of rs m s ! i)"
  have one: "(\<Sum>i<161. p i) = 1" unfolding p_def by (rule posterior_sum[OF assms])
  have off: "(\<Sum>i<161. (grid ! i - m') * p i) = t - m'"
    unfolding p_def t_def by (rule posterior_mean_offset[OF assms, symmetric])
  have "(\<Sum>i<161. (grid ! i - t) ^ 2 * p i)
        = (\<Sum>i<161. (grid ! i - m') ^ 2 * p i - 2 * (t - m') * ((grid ! i - m') * p i)
                     + (t - m') ^ 2 * p i)"
    by (rule sum.cong) (simp_all add: power2_eq_square algebra_simps)
  also have "\<dots> = (\<Sum>i<161. (grid ! i - m') ^ 2 * p i)
                   - 2 * (t - m') * (\<Sum>i<161. (grid ! i - m') * p i)
                   + (t - m') ^ 2 * (\<Sum>i<161. p i)"
    by (simp only: sum.distrib sum_subtractf sum_distrib_left)
  also have "\<dots> = (\<Sum>i<161. (grid ! i - m') ^ 2 * p i) - (t - m') ^ 2"
    unfolding off one by (simp add: power2_eq_square algebra_simps)
  finally show ?thesis unfolding t_def p_def .
qed

lemma valid_no_responses: "valid_responses []"
  by (simp add: valid_responses_def)

lemma default_moment0:
  "(\<Sum>i<161. likelihoods [] THETA_INITIAL THETA_INITIAL_SD ! i)
     = gsum z0 0 65 2 + gsum z0 0 96 3"
proof -
  have "(\<Sum>j<65. likelihoods [] THETA_INITIAL THETA_INITIAL_SD ! (64 - j)) = gsum z0 0 65 2"
    unfolding gsum_sum by (rule sum.cong) (simp_all add: default_likelihood_below)
  moreover have "(\<Sum>j<96. likelihoods [] THETA_INITIAL THETA_INITIAL_SD ! (65 + j)) = gsum z0 0 96 3"
    unfolding gsum_sum by (rule sum.cong) (simp_all add: default_likelihood_above)
  ultimately show ?thesis
    by (simp only: sum_split_at_mean[of "\<lambda>i. likelihoods [] THETA_INITIAL THETA_INITIAL_SD ! i"])
qed

lemma default_moment1:
  "(\<Sum>i<161. (grid ! i - THETA_INITIAL) * likelihoods [] THETA_INITIAL THETA_INITIAL_SD ! i)
     = (gsum z0 1 96 3 - gsum z0 1 65 2) / 100"
proof -
  let ?G = "\<lambda>i. (grid ! i - THETA_INITIAL) * likelihoods [] THETA_INITIAL THETA_INITIAL_SD ! i"
  have "(\<Sum>j<65. ?G (64 - j)) = (\<Sum>j<65. - (real (2 + 5 * j) ^ 1 * z0 ^ ((2 + 5 * j) ^ 2)) / 100)"
    by (rule sum.cong) (simp_all add: default_likelihood_below default_offset_below)
  also have "\<dots> = - gsum z0 1 65 2 / 100"
    unfolding gsum_sum by (simp add: sum_negf sum_divide_distrib)
  finally have below: "(\<Sum>j<65. ?G (64 - j)) = - gsum z0 1 65 2 / 100" .
  have "(\<Sum>j<96. ?G (65 + j)) = (\<Sum>j<96. (real (3 + 5 * j) ^ 1 * z0 ^ ((3 + 5 * j) ^ 2)) / 100)"
    by (rule sum.cong) (simp_all add: default_likelihood_above default_offset_above)
  also have "\<dots> = gsum z0 1 96 3 / 100"
    unfolding gsum_sum by (simp add: sum_divide_distrib)
  finally have above: "(\<Sum>j<96. ?G (65 + j)) = gsum z0 1 96 3 / 100" .
  show ?thesis
    unfolding sum_split_at_mean[of ?G] below above by (simp add: diff_divide_distrib)
qed

lemma default_moment2:
  "(\<Sum>i<161. (grid ! i - THETA_INITIAL) ^ 2 * likelihoods [] THETA_INITIAL THETA_INITIAL_SD ! i)
     = (gsum z0 2 65 2 + gsum z0 2 96 3) / 10 ^ 4"
proof -
  let ?G = "\<lambda>i. (grid ! i - THETA_INITIAL) ^ 2 * likelihoods [] THETA_INITIAL THETA_INITIAL_SD ! i"
  have "(\<Sum>j<65. ?G (64 - j)) = (\<Sum>j<65. (real (2 + 5 * j) ^ 2 * z0 ^ ((2 + 5 * j) ^ 2)) / 10 ^ 4)"
    by (rule sum.cong) (simp_all add: default_likelihood_below default_offset_below power_divide)
  also have "\<dots> = gsum z0 2 65 2 / 10 ^ 4"
    unfolding gsum_sum by (simp only: sum_divide_distrib)
  finally have below: "(\<Sum>j<65. ?G (64 - j)) = gsum z0 2 65 2 / 10 ^ 4" .
  have "(\<Sum>j<96. ?G (65 + j)) = (\<Sum>j<96. (real (3 + 5 * j) ^ 2 * z0 ^ ((3 + 5 * j) ^ 2)) / 10 ^ 4)"
    by (rule sum.cong) (simp_all add: default_likelihood_above default_offset_above power_divide)
  also have "\<dots> = gsum z0 2 96 3 / 10 ^ 4"
    unfolding gsum_sum by (simp only: sum_divide_distrib)
  finally have above: "(\<Sum>j<96. ?G (65 + j)) = gsum z0 2 96 3 / 10 ^ 4" .
  show ?thesis
    unfolding sum_split_at_mean[of ?G] below above by (simp add: add_divide_distrib)
qed

subsection \<open>The enclosures, evaluated\<close>

lemma ipow_lower_50: "ipow 0 999830 50 = 991515"
  by (simp add: ipow.simps mulr_def scale_def)

lemma ipow_lower_9: "ipow 0 999830 9 = 998470"
  by (simp add: ipow.simps mulr_def scale_def)

lemma ipow_lower_55: "ipow 0 999830 55 = 990670"
  by (simp add: ipow.simps mulr_def scale_def)

lemma ipow_lower_4: "ipow 0 999830 4 = 999320"
  by (simp add: ipow.simps mulr_def scale_def)

lemma ipow_lower_45: "ipow 0 999830 45 = 992360"
  by (simp add: ipow.simps mulr_def scale_def)

lemma ipow_upper_50: "ipow 1 999831 50 = 991614"
  by (simp add: ipow.simps mulr_def scale_def)

lemma ipow_upper_9: "ipow 1 999831 9 = 998488"
  by (simp add: ipow.simps mulr_def scale_def)

lemma ipow_upper_55: "ipow 1 999831 55 = 990779"
  by (simp add: ipow.simps mulr_def scale_def)

lemma ipow_upper_4: "ipow 1 999831 4 = 999328"
  by (simp add: ipow.simps mulr_def scale_def)

lemma ipow_upper_45: "ipow 1 999831 45 = 992449"
  by (simp add: ipow.simps mulr_def scale_def)

lemma run_lower_above:
  "run 0 991515 96 3 998470 990670 0 0 0 = (13476656, 586902028, 39826562414)"
  by (simp add: run.simps mulr_def scale_def)

lemma run_lower_below:
  "run 0 991515 65 2 999320 992360 0 0 0 = (13676776, 586909797, 39827358859)"
  by (simp add: run.simps mulr_def scale_def)

lemma run_upper_above:
  "run 1 991614 96 3 998488 990779 0 0 0 = (13557905, 593979790, 40558821170)"
  by (simp add: run.simps mulr_def scale_def)

lemma run_upper_below:
  "run 1 991614 65 2 999328 992449 0 0 0 = (13757962, 593963989, 40551179783)"
  by (simp add: run.simps mulr_def scale_def)

lemma z0_power_lower:
  "real 991515 \<le> real scale * z0 ^ 50" "real 998470 \<le> real scale * z0 ^ 9"
  "real 990670 \<le> real scale * z0 ^ 55" "real 999320 \<le> real scale * z0 ^ 4"
  "real 992360 \<le> real scale * z0 ^ 45"
  using ipow_lower[OF z0_lower, of 50] ipow_lower[OF z0_lower, of 9]
    ipow_lower[OF z0_lower, of 55] ipow_lower[OF z0_lower, of 4] ipow_lower[OF z0_lower, of 45]
  by (simp_all only: ipow_lower_50 ipow_lower_9 ipow_lower_55 ipow_lower_4 ipow_lower_45)

lemma z0_power_upper:
  "real scale * z0 ^ 50 \<le> real 991614" "real scale * z0 ^ 9 \<le> real 998488"
  "real scale * z0 ^ 55 \<le> real 990779" "real scale * z0 ^ 4 \<le> real 999328"
  "real scale * z0 ^ 45 \<le> real 992449"
  using ipow_upper[OF z0_upper z0_nonneg, of 50] ipow_upper[OF z0_upper z0_nonneg, of 9]
    ipow_upper[OF z0_upper z0_nonneg, of 55] ipow_upper[OF z0_upper z0_nonneg, of 4]
    ipow_upper[OF z0_upper z0_nonneg, of 45]
  by (simp_all only: ipow_upper_50 ipow_upper_9 ipow_upper_55 ipow_upper_4 ipow_upper_45)

lemma moments_above_lower:
  "13476656 \<le> 10 ^ 6 * gsum z0 0 96 3" "586902028 \<le> 10 ^ 6 * gsum z0 1 96 3"
  "39826562414 \<le> 10 ^ 6 * gsum z0 2 96 3"
proof -
  have w: "real 998470 \<le> real scale * z0 ^ (3 ^ 2)" using z0_power_lower(2) by simp
  have r: "real 990670 \<le> real scale * z0 ^ (10 * 3 + 25)" using z0_power_lower(3) by simp
  from run_lower[OF z0_power_lower(1) w r run_lower_above]
  show "13476656 \<le> 10 ^ 6 * gsum z0 0 96 3" "586902028 \<le> 10 ^ 6 * gsum z0 1 96 3"
    "39826562414 \<le> 10 ^ 6 * gsum z0 2 96 3" by (simp_all add: scale_def)
qed

lemma moments_below_lower:
  "13676776 \<le> 10 ^ 6 * gsum z0 0 65 2" "586909797 \<le> 10 ^ 6 * gsum z0 1 65 2"
  "39827358859 \<le> 10 ^ 6 * gsum z0 2 65 2"
proof -
  have w: "real 999320 \<le> real scale * z0 ^ (2 ^ 2)" using z0_power_lower(4) by simp
  have r: "real 992360 \<le> real scale * z0 ^ (10 * 2 + 25)" using z0_power_lower(5) by simp
  from run_lower[OF z0_power_lower(1) w r run_lower_below]
  show "13676776 \<le> 10 ^ 6 * gsum z0 0 65 2" "586909797 \<le> 10 ^ 6 * gsum z0 1 65 2"
    "39827358859 \<le> 10 ^ 6 * gsum z0 2 65 2" by (simp_all add: scale_def)
qed

lemma moments_above_upper:
  "10 ^ 6 * gsum z0 0 96 3 \<le> 13557905" "10 ^ 6 * gsum z0 1 96 3 \<le> 593979790"
  "10 ^ 6 * gsum z0 2 96 3 \<le> 40558821170"
proof -
  have w: "real scale * z0 ^ (3 ^ 2) \<le> real 998488" using z0_power_upper(2) by simp
  have r: "real scale * z0 ^ (10 * 3 + 25) \<le> real 990779" using z0_power_upper(3) by simp
  from run_upper[OF z0_power_upper(1) z0_nonneg w r run_upper_above]
  show "10 ^ 6 * gsum z0 0 96 3 \<le> 13557905" "10 ^ 6 * gsum z0 1 96 3 \<le> 593979790"
    "10 ^ 6 * gsum z0 2 96 3 \<le> 40558821170" by (simp_all add: scale_def)
qed

lemma moments_below_upper:
  "10 ^ 6 * gsum z0 0 65 2 \<le> 13757962" "10 ^ 6 * gsum z0 1 65 2 \<le> 593963989"
  "10 ^ 6 * gsum z0 2 65 2 \<le> 40551179783"
proof -
  have w: "real scale * z0 ^ (2 ^ 2) \<le> real 999328" using z0_power_upper(4) by simp
  have r: "real scale * z0 ^ (10 * 2 + 25) \<le> real 992449" using z0_power_upper(5) by simp
  from run_upper[OF z0_power_upper(1) z0_nonneg w r run_upper_below]
  show "10 ^ 6 * gsum z0 0 65 2 \<le> 13757962" "10 ^ 6 * gsum z0 1 65 2 \<le> 593963989"
    "10 ^ 6 * gsum z0 2 65 2 \<le> 40551179783" by (simp_all add: scale_def)
qed

subsection \<open>Mean and standard deviation\<close>

lemma default_posterior_moment:
  "(\<Sum>i<161. f i * posterior_of [] THETA_INITIAL THETA_INITIAL_SD ! i)
     = (\<Sum>i<161. f i * likelihoods [] THETA_INITIAL THETA_INITIAL_SD ! i)
       / (gsum z0 0 65 2 + gsum z0 0 96 3)"
proof -
  have "(\<Sum>i<161. f i * posterior_of [] THETA_INITIAL THETA_INITIAL_SD ! i)
        = (\<Sum>i<161. f i * likelihoods [] THETA_INITIAL THETA_INITIAL_SD ! i
                      / (gsum z0 0 65 2 + gsum z0 0 96 3))"
    by (rule sum.cong) (simp_all add: posterior_nth default_moment0)
  then show ?thesis by (simp only: sum_divide_distrib)
qed

lemma default_theta_offset:
  "\<bar>EAPResult.theta (eapEstimate [] THETA_INITIAL THETA_INITIAL_SD) - THETA_INITIAL\<bar> < 1 / 100"
proof -
  define S where "S = gsum z0 0 65 2 + gsum z0 0 96 3"
  have S: "27 < S" unfolding S_def using moments_above_lower(1) moments_below_lower(1) by simp
  have "EAPResult.theta (eapEstimate [] THETA_INITIAL THETA_INITIAL_SD) - THETA_INITIAL
        = ((gsum z0 1 96 3 - gsum z0 1 65 2) / 100) / S"
    unfolding posterior_mean_offset[OF valid_no_responses] default_posterior_moment
      default_moment1 S_def ..
  moreover have "\<bar>(gsum z0 1 96 3 - gsum z0 1 65 2) / 100\<bar> < 1 / 100 * S"
    using S moments_above_lower(2) moments_below_lower(2) moments_above_upper(2)
      moments_below_upper(2) by simp
  ultimately show ?thesis using S by (simp add: pos_divide_less_eq)
qed

lemma default_variance:
  "(53 / 100) ^ 2 + 1 / 10 ^ 4
     < (\<Sum>i<161. (grid ! i - THETA_INITIAL) ^ 2 * posterior_of [] THETA_INITIAL THETA_INITIAL_SD ! i)"
  "(\<Sum>i<161. (grid ! i - THETA_INITIAL) ^ 2 * posterior_of [] THETA_INITIAL THETA_INITIAL_SD ! i)
     < (55 / 100) ^ 2"
proof -
  define S where "S = gsum z0 0 65 2 + gsum z0 0 96 3"
  define V where "V = gsum z0 2 65 2 + gsum z0 2 96 3"
  have S: "27 < S" "S < 28" unfolding S_def
    using moments_above_lower(1) moments_below_lower(1) moments_above_upper(1)
      moments_below_upper(1) by simp_all
  have V: "79653 < V" "V < 81111" unfolding V_def
    using moments_above_lower(3) moments_below_lower(3) moments_above_upper(3)
      moments_below_upper(3) by simp_all
  have e: "(\<Sum>i<161. (grid ! i - THETA_INITIAL) ^ 2 * posterior_of [] THETA_INITIAL THETA_INITIAL_SD ! i)
           = (V / 10 ^ 4) / S"
    unfolding default_posterior_moment default_moment2 S_def V_def ..
  show "(53 / 100) ^ 2 + 1 / 10 ^ 4
     < (\<Sum>i<161. (grid ! i - THETA_INITIAL) ^ 2 * posterior_of [] THETA_INITIAL THETA_INITIAL_SD ! i)"
    unfolding e using S V moments_above_upper(1) moments_below_upper(1)
      moments_above_lower(3) moments_below_lower(3)
    by (simp add: pos_less_divide_eq S_def V_def power2_eq_square)
  show "(\<Sum>i<161. (grid ! i - THETA_INITIAL) ^ 2 * posterior_of [] THETA_INITIAL THETA_INITIAL_SD ! i)
     < (55 / 100) ^ 2"
    unfolding e using S V moments_above_lower(1) moments_below_lower(1)
      moments_above_upper(3) moments_below_upper(3)
    by (simp add: pos_divide_less_eq S_def V_def power2_eq_square)
qed

lemma default_sd_range:
  "53 / 100 < sd (eapEstimate [] THETA_INITIAL THETA_INITIAL_SD)"
  "sd (eapEstimate [] THETA_INITIAL THETA_INITIAL_SD) < 55 / 100"
proof -
  define t where "t = EAPResult.theta (eapEstimate [] THETA_INITIAL THETA_INITIAL_SD) - THETA_INITIAL"
  define v where "v = (\<Sum>i<161. (grid ! i - EAPResult.theta (eapEstimate [] THETA_INITIAL THETA_INITIAL_SD)) ^ 2
                          * posterior_of [] THETA_INITIAL THETA_INITIAL_SD ! i)"
  have "\<bar>t\<bar> < 1 / 100" unfolding t_def by (rule default_theta_offset)
  then have "\<bar>t\<bar> ^ 2 < (1 / 100) ^ 2" by (intro power_strict_mono) simp_all
  then have t2: "0 \<le> t ^ 2" "t ^ 2 < 1 / 10 ^ 4" by (simp_all add: power2_eq_square)
  have v: "v = (\<Sum>i<161. (grid ! i - THETA_INITIAL) ^ 2 * posterior_of [] THETA_INITIAL THETA_INITIAL_SD ! i) - t ^ 2"
    unfolding v_def t_def by (rule posterior_variance_offset[OF valid_no_responses])
  have lo: "(53 / 100) ^ 2 < v" and hi: "v < (55 / 100) ^ 2"
    unfolding v using default_variance t2 by linarith+
  have s: "sd (eapEstimate [] THETA_INITIAL THETA_INITIAL_SD) = sqrt v"
    unfolding v_def by (rule eapEstimate_sd)
  show "53 / 100 < sd (eapEstimate [] THETA_INITIAL THETA_INITIAL_SD)"
    unfolding s by (rule real_less_rsqrt[OF lo])
  show "sd (eapEstimate [] THETA_INITIAL THETA_INITIAL_SD) < 55 / 100"
    unfolding s by (rule real_less_lsqrt[OF _ hi]) simp
qed

text \<open>
  C4, as the code has it. Under the default prior (priorMean = -0.780, priorSd = 0.543),
  \<open>eapEstimate\<close> applied to the empty response list returns the prior within the grid
  resolution: the returned theta is within 0.05 of priorMean and the returned sd within
  0.05 of priorSd.
\<close>

theorem eapEstimate_default_prior:
  "\<bar>EAPResult.theta (eapEstimate [] THETA_INITIAL THETA_INITIAL_SD) - THETA_INITIAL\<bar> < 0.05
   \<and> \<bar>sd (eapEstimate [] THETA_INITIAL THETA_INITIAL_SD) - THETA_INITIAL_SD\<bar> < 0.05
   \<and> THETA_INITIAL = - 0.780 \<and> THETA_INITIAL_SD = 0.543"
proof -
  have m: "THETA_INITIAL = - 0.780" by (simp add: THETA_INITIAL_def)
  have s: "THETA_INITIAL_SD = 0.543" by (simp add: THETA_INITIAL_SD_def)
  have s': "THETA_INITIAL_SD = 543 / 1000" by (simp add: THETA_INITIAL_SD_def)
  have g: "(0.05::real) = 1 / 20" by simp
  have "\<bar>EAPResult.theta (eapEstimate [] THETA_INITIAL THETA_INITIAL_SD) - THETA_INITIAL\<bar> < 0.05"
    unfolding g using default_theta_offset by linarith
  moreover have "\<bar>sd (eapEstimate [] THETA_INITIAL THETA_INITIAL_SD) - THETA_INITIAL_SD\<bar> < 0.05"
    unfolding g using default_sd_range s' by linarith
  ultimately show ?thesis using m s by blast
qed

text \<open>
  The claim as stated fails for a prior whose mean is outside of the grid: the estimate
  is a mean of grid points, so it is at most 4, and with priorMean = 10 and priorSd = 1
  it is not within 0.05 of priorMean.
\<close>

theorem eapEstimate_far_prior_counterexample:
  "(0::real) < 1
   \<and> EAPResult.theta (eapEstimate [] 10 1) \<le> 4
   \<and> \<not> \<bar>EAPResult.theta (eapEstimate [] 10 1) - 10\<bar> < 0.05"
proof -
  have g: "(0.05::real) = 1 / 20" by simp
  have "EAPResult.theta (eapEstimate [] 10 1) \<le> 4"
    by (rule theta_in_grid_range(2)[OF valid_no_responses])
  then show ?thesis unfolding g by (simp add: abs_less_iff)
qed

end
